theory Spec2Isabelle
  imports Complex_Main "HOL-Library.Word"
begin

unbundle bit_operations_syntax

section \<open>Python values used by the moderation pipeline\<close>

text \<open>
  A Python \<open>str\<close> is modelled as a \<^typ>\<open>string\<close> whose characters are the code points
  U+0000 to U+00FF. Every exception of the pipeline is caught as \<open>Exception\<close> and only its
  \<open>str(e)\<close> is ever used, so an exception is modelled by its message.
\<close>

datatype pyexn = Exception (str_e: string)

text \<open>
  A Python float is modelled by the real number it denotes, or one of the three special
  values. Rounding to binary64 is not modelled; it is monotone and leaves 0, 0.5 and 1 fixed.
\<close>

datatype pyfloat = Fin real | PosInf | NegInf | NaN

fun float_lt :: "pyfloat \<Rightarrow> pyfloat \<Rightarrow> bool" where
  "float_lt (Fin a) (Fin b) = (a < b)"
| "float_lt (Fin a) PosInf = True"
| "float_lt NegInf (Fin b) = True"
| "float_lt NegInf PosInf = True"
| "float_lt _ _ = False"

text \<open>Python's two-argument \<open>min(a, b)\<close> and \<open>max(a, b)\<close>: the first argument is kept
  unless the second compares strictly smaller (larger).\<close>

definition py_min :: "pyfloat \<Rightarrow> pyfloat \<Rightarrow> pyfloat" where
  "py_min a b = (if float_lt b a then b else a)"

definition py_max :: "pyfloat \<Rightarrow> pyfloat \<Rightarrow> pyfloat" where
  "py_max a b = (if float_lt a b then b else a)"

text \<open>The largest magnitude that still rounds to a finite binary64.\<close>

definition double_overflow :: real where
  "double_overflow = 2 ^ 1024 - 2 ^ 970"

definition to_double :: "real \<Rightarrow> pyfloat" where
  "to_double x =
     (if double_overflow \<le> x then PosInf
      else if x \<le> - double_overflow then NegInf
      else Fin x)"

datatype json =
    JNull
  | JBool bool
  | JInt int
  | JFloat pyfloat
  | JString string
  | JArray "json list"
  | JObject "(string \<times> json) list"

text \<open>A decoded object keeps its members in source order; a repeated key takes its last value.\<close>

definition dict_get :: "(string \<times> json) list \<Rightarrow> string \<Rightarrow> json option" where
  "dict_get kvs k = map_of (rev kvs) k"

fun type_name :: "json \<Rightarrow> string" where
  "type_name JNull = ''NoneType''"
| "type_name (JBool _) = ''bool''"
| "type_name (JInt _) = ''int''"
| "type_name (JFloat _) = ''float''"
| "type_name (JString _) = ''str''"
| "type_name (JArray _) = ''list''"
| "type_name (JObject _) = ''dict''"

definition attribute_error :: "json \<Rightarrow> string \<Rightarrow> pyexn" where
  "attribute_error v attr =
     Exception ([CHR 0x27] @ type_name v @ [CHR 0x27] @ '' object has no attribute ''
                @ [CHR 0x27] @ attr @ [CHR 0x27])"

text \<open>\<open>obj.get(key, default)\<close>: defined on a dict only.\<close>

fun py_get :: "json \<Rightarrow> string \<Rightarrow> json \<Rightarrow> pyexn + json" where
  "py_get (JObject kvs) k d = Inr (case dict_get kvs k of None \<Rightarrow> d | Some v \<Rightarrow> v)"
| "py_get v k d = Inl (attribute_error v ''get'')"

text \<open>Truth value of an object, as tested by \<open>if x:\<close>.\<close>

fun truthy :: "json \<Rightarrow> bool" where
  "truthy JNull = False"
| "truthy (JBool b) = b"
| "truthy (JInt n) = (n \<noteq> 0)"
| "truthy (JFloat (Fin x)) = (x \<noteq> 0)"
| "truthy (JFloat _) = True"
| "truthy (JString s) = (s \<noteq> [])"
| "truthy (JArray xs) = (xs \<noteq> [])"
| "truthy (JObject kvs) = (kvs \<noteq> [])"

subsection \<open>Strings\<close>

definition py_isspace :: "char \<Rightarrow> bool" where
  "py_isspace c = ((of_char c :: nat) \<in> {9, 10, 11, 12, 13, 28, 29, 30, 31, 32, 133, 160})"

definition lower_char :: "char \<Rightarrow> char" where
  "lower_char c =
     (let n = (of_char c :: nat)
      in if (65 \<le> n \<and> n \<le> 90) \<or> (192 \<le> n \<and> n \<le> 222 \<and> n \<noteq> 215)
         then char_of (n + 32) else c)"

definition py_lower :: "string \<Rightarrow> string" where
  "py_lower s = map lower_char s"

definition py_strip :: "string \<Rightarrow> string" where
  "py_strip s = rev (dropWhile py_isspace (rev (dropWhile py_isspace s)))"

text \<open>\<open>s.split()\<close> with no separator: the maximal runs of non-whitespace characters.
  \<open>split_scan cur s\<close> scans \<open>s\<close> with the current word \<open>cur\<close> held in reverse.\<close>

fun split_scan :: "string \<Rightarrow> string \<Rightarrow> string list" where
  "split_scan cur [] = (if cur = [] then [] else [rev cur])"
| "split_scan cur (c # cs) =
     (if py_isspace c
      then (if cur = [] then split_scan [] cs else rev cur # split_scan [] cs)
      else split_scan (c # cur) cs)"

definition py_split :: "string \<Rightarrow> string list" where
  "py_split s = split_scan [] s"

fun py_join :: "string \<Rightarrow> string list \<Rightarrow> string" where
  "py_join sep [] = []"
| "py_join sep [w] = w"
| "py_join sep (w # ws) = w @ sep @ py_join sep ws"

text \<open>\<open>v.lower()\<close> on a decoded value: only a \<open>str\<close> has the method.\<close>

fun str_lower :: "json \<Rightarrow> pyexn + string" where
  "str_lower (JString s) = Inr (py_lower s)"
| "str_lower v = Inl (attribute_error v ''lower'')"

subsection \<open>\<open>float(x)\<close>\<close>

definition is_digit :: "char \<Rightarrow> bool" where
  "is_digit c = (48 \<le> (of_char c :: nat) \<and> (of_char c :: nat) \<le> 57)"

definition digits_val :: "string \<Rightarrow> nat" where
  "digits_val ds = foldl (\<lambda>a c. 10 * a + (of_char c - 48)) 0 ds"

text \<open>The value of the decimal numeral with integer digits \<open>ip\<close>, fraction digits \<open>fp\<close> and
  exponent \<open>10 ^ ex\<close> (divided when \<open>neg\<close>).\<close>

definition decimal_value :: "string \<Rightarrow> string \<Rightarrow> bool \<Rightarrow> nat \<Rightarrow> real" where
  "decimal_value ip fp neg ex =
     (let m = real (digits_val (ip @ fp)) / 10 ^ length fp
      in if neg then m / 10 ^ ex else m * 10 ^ ex)"

text \<open>Underscores may separate digits of a float literal: each must stand between two digits.\<close>

fun remove_underscores :: "char option \<Rightarrow> string \<Rightarrow> string option" where
  "remove_underscores prev [] = (if prev = Some CHR ''_'' then None else Some [])"
| "remove_underscores prev (c # cs) =
     (if c = CHR ''_'' then
        (if (case prev of Some p \<Rightarrow> is_digit p | None \<Rightarrow> False)
         then remove_underscores (Some c) cs else None)
      else if prev = Some CHR ''_'' \<and> \<not> is_digit c then None
      else map_option ((#) c) (remove_underscores (Some c) cs))"

definition parse_exponent :: "string \<Rightarrow> (bool \<times> nat) option" where
  "parse_exponent t =
     (let (neg, ds) = (case t of
                         [] \<Rightarrow> (False, [])
                       | s # u \<Rightarrow> if s = CHR ''+'' then (False, u)
                                  else if s = CHR ''-'' then (True, u) else (False, t))
      in if ds \<noteq> [] \<and> list_all is_digit ds then Some (neg, digits_val ds) else None)"

definition parse_unsigned_float :: "string \<Rightarrow> pyfloat option" where
  "parse_unsigned_float s =
     (if py_lower s = ''inf'' \<or> py_lower s = ''infinity'' then Some PosInf
      else if py_lower s = ''nan'' then Some NaN
      else
        (let ip = takeWhile is_digit s;
             r1 = dropWhile is_digit s;
             (fp, r2) = (case r1 of
                           [] \<Rightarrow> ([], [])
                         | d # t \<Rightarrow> if d = CHR ''.''
                                     then (takeWhile is_digit t, dropWhile is_digit t)
                                     else ([], r1))
         in if ip = [] \<and> fp = [] then None
            else (case r2 of
                    [] \<Rightarrow> Some (to_double (decimal_value ip fp False 0))
                  | e # t \<Rightarrow>
                      if e = CHR ''e'' \<or> e = CHR ''E'' then
                        (case parse_exponent t of
                           None \<Rightarrow> None
                         | Some (neg, ex) \<Rightarrow> Some (to_double (decimal_value ip fp neg ex)))
                      else None)))"

fun float_neg :: "pyfloat \<Rightarrow> pyfloat" where
  "float_neg (Fin x) = Fin (- x)"
| "float_neg PosInf = NegInf"
| "float_neg NegInf = PosInf"
| "float_neg NaN = NaN"

definition float_of_str :: "string \<Rightarrow> pyexn + pyfloat" where
  "float_of_str s =
     (let err = Exception (''could not convert string to float: '' @ [CHR 0x27] @ s @ [CHR 0x27])
      in case remove_underscores None s of
           None \<Rightarrow> Inl err
         | Some t \<Rightarrow>
             (case py_strip t of
                [] \<Rightarrow> Inl err
              | c # cs \<Rightarrow>
                  (let r = (if c = CHR ''-'' then map_option float_neg (parse_unsigned_float cs)
                            else if c = CHR ''+'' then parse_unsigned_float cs
                            else parse_unsigned_float (c # cs))
                   in case r of None \<Rightarrow> Inl err | Some x \<Rightarrow> Inr x)))"

definition float_type_error :: "json \<Rightarrow> pyexn" where
  "float_type_error v =
     Exception (''float() argument must be a string or a real number, not ''
                @ [CHR 0x27] @ type_name v @ [CHR 0x27])"

fun py_float :: "json \<Rightarrow> pyexn + pyfloat" where
  "py_float (JFloat x) = Inr x"
| "py_float (JInt n) =
     (if double_overflow \<le> \<bar>real_of_int n\<bar>
      then Inl (Exception ''int too large to convert to float'')
      else Inr (Fin (real_of_int n)))"
| "py_float (JBool b) = Inr (Fin (if b then 1 else 0))"
| "py_float (JString s) = float_of_str s"
| "py_float v = Inl (float_type_error v)"

section \<open>Data model (\<open>app/models/models.py\<close>)\<close>

datatype ContentType = TEXT | IMAGE

datatype ModerationStatus = PENDING | PROCESSING | COMPLETED | FAILED

datatype ClassificationType = SAFE | TOXIC | SPAM | HARASSMENT | INAPPROPRIATE

datatype NotificationChannel = SLACK | EMAIL

datatype NotificationStatus = NOTIFY_PENDING | SENT | NOTIFY_FAILED

section \<open>Verdict parser (\<open>LLMService._parse_llm_response\<close>)\<close>

text \<open>The search for the pattern "opening brace, anything, closing brace" with \<open>re.DOTALL\<close>:
  the match runs from the leftmost opening brace to the rightmost closing brace after it.\<close>

definition re_search_braces :: "string \<Rightarrow> string option" where
  "re_search_braces s =
     (let from_open = dropWhile (\<lambda>c. c \<noteq> CHR ''{'') s;
          m = rev (dropWhile (\<lambda>c. c \<noteq> CHR ''}'') (rev from_open))
      in if m = [] then None else Some m)"

record llm_result =
  classification :: ClassificationType
  confidence :: pyfloat
  reasoning :: json
  flagged :: json
  llm_response :: string

definition classification_map :: "string \<Rightarrow> ClassificationType option" where
  "classification_map =
     map_of [(''safe'', SAFE), (''toxic'', TOXIC), (''spam'', SPAM),
             (''harassment'', HARASSMENT), (''inappropriate'', INAPPROPRIATE)]"

text \<open>The body of the \<open>try\<close> once the regular expression has matched. The decoder
  \<open>json.loads\<close> is the parameter \<open>loads\<close>.\<close>

definition parse_matched ::
  "(string \<Rightarrow> pyexn + json) \<Rightarrow> string \<Rightarrow> string \<Rightarrow> pyexn + llm_result" where
  "parse_matched loads json_str response_text =
     (case loads json_str of
        Inl e \<Rightarrow> Inl e
      | Inr parsed \<Rightarrow>
     (case py_get parsed ''classification'' (JString ''safe'') of
        Inl e \<Rightarrow> Inl e
      | Inr cv \<Rightarrow>
     (case str_lower cv of
        Inl e \<Rightarrow> Inl e
      | Inr cls \<Rightarrow>
     (case py_get parsed ''confidence'' (JFloat (Fin 0.5)) of
        Inl e \<Rightarrow> Inl e
      | Inr fv \<Rightarrow>
     (case py_float fv of
        Inl e \<Rightarrow> Inl e
      | Inr conf \<Rightarrow>
     (case py_get parsed ''reasoning'' (JString ''No reasoning provided'') of
        Inl e \<Rightarrow> Inl e
      | Inr rsn \<Rightarrow>
     (case py_get parsed ''flagged'' (JBool False) of
        Inl e \<Rightarrow> Inl e
      | Inr flg \<Rightarrow>
          Inr \<lparr> classification = (case classification_map cls of None \<Rightarrow> SAFE | Some c \<Rightarrow> c),
                confidence = py_max (Fin 0) (py_min (Fin 1) conf),
                reasoning = rsn,
                flagged = flg,
                llm_response = response_text \<rparr>)))))))"

definition parse_llm_response_with ::
  "(string \<Rightarrow> pyexn + json) \<Rightarrow> string \<Rightarrow> llm_result" where
  "parse_llm_response_with loads response_text =
     (case (case re_search_braces response_text of
              Some json_str \<Rightarrow> parse_matched loads json_str response_text
            | None \<Rightarrow>
                Inr \<lparr> classification = SAFE,
                      confidence = Fin 0.5,
                      reasoning = JString ''Failed to parse LLM response'',
                      flagged = JBool False,
                      llm_response = response_text \<rparr>) of
        Inr result \<Rightarrow> result
      | Inl e \<Rightarrow>
          \<lparr> classification = SAFE,
            confidence = Fin 0.5,
            reasoning = JString (''Error parsing response: '' @ str_e e),
            flagged = JBool False,
            llm_response = response_text \<rparr>)"


section \<open>The decoder \<open>json.loads\<close>\<close>

text \<open>
  A model of the standard decoder on the alphabet U+0000 to U+00FF: a scanner that cuts the
  text into tokens, and a parser that consumes them with an explicit stack. Error messages
  are Python's without the position suffix. Two limits of the model: a four-digit
  hexadecimal escape above U+00FF has no character here and is reported as an error, and the
  interpreter's recursion limit on nesting is not modelled.
\<close>

datatype token =
    TLBrace | TRBrace | TLBrack | TRBrack | TColon | TComma
  | TStr string
  | TVal json
  | TBadString string
  | TBadValue

definition json_ws :: "char \<Rightarrow> bool" where
  "json_ws c = (c = CHR '' '' \<or> c = CHR 0x09 \<or> c = CHR 0x0A \<or> c = CHR 0x0D)"

definition hex_val :: "char \<Rightarrow> nat option" where
  "hex_val c =
     (let n = (of_char c :: nat)
      in if 48 \<le> n \<and> n \<le> 57 then Some (n - 48)
         else if 97 \<le> n \<and> n \<le> 102 then Some (n - 87)
         else if 65 \<le> n \<and> n \<le> 70 then Some (n - 55)
         else None)"

fun hex4 :: "string \<Rightarrow> nat option" where
  "hex4 (a # b # c # d # _ # _) =
     (case (hex_val a, hex_val b, hex_val c, hex_val d) of
        (Some w, Some x, Some y, Some z) \<Rightarrow> Some (4096 * w + 256 * x + 16 * y + z)
      | _ \<Rightarrow> None)"
| "hex4 _ = None"

definition escape_char :: "char \<Rightarrow> char option" where
  "escape_char e =
     (if e = CHR 0x22 \<or> e = CHR 0x5C \<or> e = CHR ''/'' then Some e
      else if e = CHR ''b'' then Some (CHR 0x08)
      else if e = CHR ''f'' then Some (CHR 0x0C)
      else if e = CHR ''n'' then Some (CHR 0x0A)
      else if e = CHR ''r'' then Some (CHR 0x0D)
      else if e = CHR ''t'' then Some (CHR 0x09)
      else None)"

text \<open>The body of a string, after its opening quote; \<open>acc\<close> is the decoded prefix in reverse.\<close>

fun scan_string :: "string \<Rightarrow> string \<Rightarrow> string + (string \<times> string)" where
  "scan_string acc [] = Inl ''Unterminated string starting at''"
| "scan_string acc (c # cs) =
     (if c = CHR 0x22 then Inr (rev acc, cs)
      else if c = CHR 0x5C then
        (case cs of
           [] \<Rightarrow> Inl ''Unterminated string starting at''
         | e # es \<Rightarrow>
             if e = CHR ''u'' then
               (case hex4 es of
                  None \<Rightarrow> Inl (''Invalid '' @ [CHR 0x5C] @ ''uXXXX escape'')
                | Some n \<Rightarrow>
                    if n < 256 then scan_string (char_of n # acc) (drop 4 es)
                    else Inl (''Escape '' @ [CHR 0x5C] @ ''uXXXX above U+00FF''))
             else
               (case escape_char e of
                  None \<Rightarrow> Inl (''Invalid '' @ [CHR 0x5C] @ ''escape'')
                | Some x \<Rightarrow> scan_string (x # acc) es))
      else if (of_char c :: nat) < 32 then Inl ''Invalid control character at''
      else scan_string (c # acc) cs)"

text \<open>A number, by the decoder's pattern
  \<open>(-?(?:0|[1-9][0-9]*))([.][0-9]+)?([eE][-+]?[0-9]+)?\<close>: an integer unless a fraction or an
  exponent is present.\<close>

definition scan_number :: "string \<Rightarrow> (json \<times> string) option" where
  "scan_number s =
     (let (neg, r0) = (case s of [] \<Rightarrow> (False, [])
                       | c # t \<Rightarrow> if c = CHR ''-'' then (True, t) else (False, s))
      in case r0 of
           [] \<Rightarrow> None
         | d # t \<Rightarrow>
             if \<not> is_digit d then None
             else
               (let (ip, r1) = (if d = CHR ''0'' then ([d], t)
                                else (d # takeWhile is_digit t, dropWhile is_digit t));
                    (fp, r2) = (case r1 of
                                  [] \<Rightarrow> ([], r1)
                                | p # u \<Rightarrow> if p = CHR ''.'' \<and> takeWhile is_digit u \<noteq> []
                                            then (takeWhile is_digit u, dropWhile is_digit u)
                                            else ([], r1));
                    (ex, r3) = (case r2 of
                                  [] \<Rightarrow> (None, r2)
                                | e # u \<Rightarrow>
                                    if e = CHR ''e'' \<or> e = CHR ''E'' then
                                      (let (eneg, v) =
                                             (case u of [] \<Rightarrow> (False, [])
                                              | g # w \<Rightarrow> if g = CHR ''-'' then (True, w)
                                                         else if g = CHR ''+'' then (False, w)
                                                         else (False, u))
                                       in if takeWhile is_digit v \<noteq> []
                                          then (Some (eneg, digits_val (takeWhile is_digit v)),
                                                dropWhile is_digit v)
                                          else (None, r2))
                                    else (None, r2))
                in if fp = [] \<and> ex = None
                   then Some (JInt (if neg then - int (digits_val ip) else int (digits_val ip)), r3)
                   else
                     (let (eneg, en) = (case ex of None \<Rightarrow> (False, 0) | Some p \<Rightarrow> p);
                          x = decimal_value ip fp eneg en
                      in Some (JFloat (to_double (if neg then - x else x)), r3))))"

definition starts_with :: "string \<Rightarrow> string \<Rightarrow> bool" where
  "starts_with p s = (take (length p) s = p)"

text \<open>A literal or a number at the head of the text.\<close>

definition scan_constant :: "string \<Rightarrow> (json \<times> string) option" where
  "scan_constant s =
     (if starts_with ''null'' s then Some (JNull, drop 4 s)
      else if starts_with ''true'' s then Some (JBool True, drop 4 s)
      else if starts_with ''false'' s then Some (JBool False, drop 5 s)
      else if starts_with ''NaN'' s then Some (JFloat NaN, drop 3 s)
      else if starts_with ''Infinity'' s then Some (JFloat PosInf, drop 8 s)
      else if starts_with ''-Infinity'' s then Some (JFloat NegInf, drop 9 s)
      else scan_number s)"

text \<open>The scanner. \<open>tokenize_from k s\<close> first skips the \<open>k\<close> characters that the token
  before has consumed, then cuts the next token off the head of the text.\<close>

fun tokenize_from :: "nat \<Rightarrow> string \<Rightarrow> token list" where
  "tokenize_from k [] = []"
| "tokenize_from (Suc k) (c # cs) = tokenize_from k cs"
| "tokenize_from 0 (c # cs) =
     (if json_ws c then tokenize_from 0 cs
      else if c = CHR ''{'' then TLBrace # tokenize_from 0 cs
      else if c = CHR ''}'' then TRBrace # tokenize_from 0 cs
      else if c = CHR ''['' then TLBrack # tokenize_from 0 cs
      else if c = CHR '']'' then TRBrack # tokenize_from 0 cs
      else if c = CHR '':'' then TColon # tokenize_from 0 cs
      else if c = CHR '','' then TComma # tokenize_from 0 cs
      else if c = CHR 0x22 then
        (case scan_string [] cs of
           Inl m \<Rightarrow> [TBadString m]
         | Inr (v, rest) \<Rightarrow> TStr v # tokenize_from (length cs - length rest) cs)
      else
        (case scan_constant (c # cs) of
           None \<Rightarrow> [TBadValue]
         | Some (v, rest) \<Rightarrow> TVal v # tokenize_from (length cs - length rest) cs))"

definition tokenize :: "string \<Rightarrow> token list" where
  "tokenize s = tokenize_from 0 s"

text \<open>The parser. A frame is a container under construction: the elements of an array, or
  the members of an object with the key that awaits its value, both in reverse.\<close>

datatype frame = FArray "json list" | FObject "(string \<times> json) list" "string option"

datatype expect =
    EValue
  | EValueOrClose
  | EKeyOrClose
  | EKey
  | EColon string
  | EDelim
  | EEnd json

definition msg_value :: string where
  "msg_value = ''Expecting value''"

definition msg_key :: string where
  "msg_key = ''Expecting property name enclosed in double quotes''"

definition msg_colon :: string where
  "msg_colon = ''Expecting '' @ [CHR 0x27] @ '':'' @ [CHR 0x27] @ '' delimiter''"

definition msg_comma :: string where
  "msg_comma = ''Expecting '' @ [CHR 0x27] @ '','' @ [CHR 0x27] @ '' delimiter''"

text \<open>A finished value goes into the innermost open container, or ends the document.\<close>

fun complete :: "json \<Rightarrow> frame list \<Rightarrow> string + (frame list \<times> expect)" where
  "complete v [] = Inr ([], EEnd v)"
| "complete v (FArray xs # st) = Inr (FArray (v # xs) # st, EDelim)"
| "complete v (FObject kvs (Some k) # st) = Inr (FObject ((k, v) # kvs) None # st, EDelim)"
| "complete v (FObject kvs None # st) = Inl msg_value"

fun close_frame :: "frame list \<Rightarrow> string + (frame list \<times> expect)" where
  "close_frame (FArray xs # st) = complete (JArray (rev xs)) st"
| "close_frame (FObject kvs None # st) = complete (JObject (rev kvs)) st"
| "close_frame _ = Inl msg_value"

fun start_value :: "frame list \<Rightarrow> token \<Rightarrow> string + (frame list \<times> expect)" where
  "start_value st (TStr s) = complete (JString s) st"
| "start_value st (TVal v) = complete v st"
| "start_value st TLBrace = Inr (FObject [] None # st, EKeyOrClose)"
| "start_value st TLBrack = Inr (FArray [] # st, EValueOrClose)"
| "start_value st (TBadString m) = Inl m"
| "start_value st _ = Inl msg_value"

fun start_key :: "frame list \<Rightarrow> token \<Rightarrow> string + (frame list \<times> expect)" where
  "start_key st (TStr k) = Inr (st, EColon k)"
| "start_key st (TBadString m) = Inl m"
| "start_key st _ = Inl msg_key"

fun step :: "frame list \<Rightarrow> expect \<Rightarrow> token \<Rightarrow> string + (frame list \<times> expect)" where
  "step st EValue t = start_value st t"
| "step st EValueOrClose t = (if t = TRBrack then close_frame st else start_value st t)"
| "step st EKeyOrClose t = (if t = TRBrace then close_frame st else start_key st t)"
| "step st EKey t = start_key st t"
| "step st (EColon k) t =
     (case (t, st) of
        (TColon, FObject kvs None # r) \<Rightarrow> Inr (FObject kvs (Some k) # r, EValue)
      | _ \<Rightarrow> Inl msg_colon)"
| "step st EDelim t =
     (case st of
        FArray xs # r \<Rightarrow>
          if t = TRBrack then close_frame st
          else if t = TComma then Inr (st, EValue)
          else Inl msg_comma
      | FObject kvs k # r \<Rightarrow>
          if t = TRBrace then close_frame st
          else if t = TComma then Inr (st, EKey)
          else Inl msg_comma
      | [] \<Rightarrow> Inl msg_comma)"
| "step st (EEnd v) t = Inl ''Extra data''"

fun at_end :: "expect \<Rightarrow> string + json" where
  "at_end (EEnd v) = Inr v"
| "at_end EValue = Inl msg_value"
| "at_end EValueOrClose = Inl msg_value"
| "at_end EKeyOrClose = Inl msg_key"
| "at_end EKey = Inl msg_key"
| "at_end (EColon k) = Inl msg_colon"
| "at_end EDelim = Inl msg_comma"

fun parse_tokens :: "frame list \<Rightarrow> expect \<Rightarrow> token list \<Rightarrow> string + json" where
  "parse_tokens st e [] = at_end e"
| "parse_tokens st e (t # ts) =
     (case step st e t of
        Inl m \<Rightarrow> Inl m
      | Inr (st', e') \<Rightarrow> parse_tokens st' e' ts)"

definition json_loads :: "string \<Rightarrow> pyexn + json" where
  "json_loads s =
     (case parse_tokens [] EValue (tokenize s) of
        Inl m \<Rightarrow> Inl (Exception m)
      | Inr v \<Rightarrow> Inr v)"

definition parse_llm_response :: "string \<Rightarrow> llm_result" where
  "parse_llm_response response_text = parse_llm_response_with json_loads response_text"


section \<open>Properties of a parsed verdict\<close>

definition unit_interval :: "pyfloat \<Rightarrow> bool" where
  "unit_interval c = (case c of Fin x \<Rightarrow> 0 \<le> x \<and> x \<le> 1 | _ \<Rightarrow> False)"

text \<open>A parsed verdict is well formed when its confidence is a number in \<open>[0, 1]\<close> and it
  retains the raw text; its classification is one of the five of the taxonomy by its type.\<close>

definition well_formed :: "string \<Rightarrow> llm_result \<Rightarrow> bool" where
  "well_formed response_text r =
     (unit_interval (confidence r) \<and> llm_response r = response_text)"

text \<open>The structured fragment of a raw response, when one is found and decodes.\<close>

definition decoded_fragment :: "(string \<Rightarrow> pyexn + json) \<Rightarrow> string \<Rightarrow> json option" where
  "decoded_fragment loads response_text =
     (case re_search_braces response_text of
        None \<Rightarrow> None
      | Some json_str \<Rightarrow> (case loads json_str of Inl e \<Rightarrow> None | Inr v \<Rightarrow> Some v))"

text \<open>The raw confidence value of the upstream response: the member \<open>confidence\<close> of the
  decoded object, if there is one.\<close>

definition raw_confidence :: "(string \<Rightarrow> pyexn + json) \<Rightarrow> string \<Rightarrow> json option" where
  "raw_confidence loads response_text =
     (case decoded_fragment loads response_text of
        Some (JObject kvs) \<Rightarrow> dict_get kvs ''confidence''
      | _ \<Rightarrow> None)"

text \<open>A value is numeric when \<open>float()\<close> accepts it.\<close>

definition numeric :: "json \<Rightarrow> bool" where
  "numeric v = (case py_float v of Inr x \<Rightarrow> True | Inl e \<Rightarrow> False)"

section \<open>Fingerprinter (\<open>app/utils/hashing.py\<close>)\<close>

subsection \<open>SHA-256 and the encodings it is applied to\<close>

text \<open>A byte is a natural number below 256. A character above U+007F takes two bytes in UTF-8.\<close>

definition utf8_char :: "char \<Rightarrow> nat list" where
  "utf8_char c =
     (let n = (of_char c :: nat)
      in if n < 128 then [n] else [192 + n div 64, 128 + n mod 64])"

definition utf8_encode :: "string \<Rightarrow> nat list" where
  "utf8_encode s = concat (map utf8_char s)"

text \<open>The round constants and the initial hash value, in decimal.\<close>

definition sha_k :: "32 word list" where
  "sha_k =
     [
      1116352408, 1899447441, 3049323471, 3921009573, 961987163,
      1508970993, 2453635748, 2870763221, 3624381080, 310598401,
      607225278, 1426881987, 1925078388, 2162078206, 2614888103,
      3248222580, 3835390401, 4022224774, 264347078, 604807628,
      770255983, 1249150122, 1555081692, 1996064986, 2554220882,
      2821834349, 2952996808, 3210313671, 3336571891, 3584528711,
      113926993, 338241895, 666307205, 773529912, 1294757372,
      1396182291, 1695183700, 1986661051, 2177026350, 2456956037,
      2730485921, 2820302411, 3259730800, 3345764771, 3516065817,
      3600352804, 4094571909, 275423344, 430227734, 506948616,
      659060556, 883997877, 958139571, 1322822218, 1537002063,
      1747873779, 1955562222, 2024104815, 2227730452, 2361852424,
      2428436474, 2756734187, 3204031479, 3329325298]"

definition sha_h0 :: "32 word list" where
  "sha_h0 =
     [
      1779033703, 3144134277, 1013904242, 2773480762, 1359893119,
      2600822924, 528734635, 1541459225]"

definition ch :: "32 word \<Rightarrow> 32 word \<Rightarrow> 32 word \<Rightarrow> 32 word" where
  "ch x y z = (x AND y) XOR (NOT x AND z)"

definition maj :: "32 word \<Rightarrow> 32 word \<Rightarrow> 32 word \<Rightarrow> 32 word" where
  "maj x y z = (x AND y) XOR (x AND z) XOR (y AND z)"

definition big_sigma0 :: "32 word \<Rightarrow> 32 word" where
  "big_sigma0 x = word_rotr 2 x XOR word_rotr 13 x XOR word_rotr 22 x"

definition big_sigma1 :: "32 word \<Rightarrow> 32 word" where
  "big_sigma1 x = word_rotr 6 x XOR word_rotr 11 x XOR word_rotr 25 x"

definition small_sigma0 :: "32 word \<Rightarrow> 32 word" where
  "small_sigma0 x = word_rotr 7 x XOR word_rotr 18 x XOR drop_bit 3 x"

definition small_sigma1 :: "32 word \<Rightarrow> 32 word" where
  "small_sigma1 x = word_rotr 17 x XOR word_rotr 19 x XOR drop_bit 10 x"

text \<open>Padding: the byte 0x80, zero bytes up to 56 modulo 64, the bit length on 8 bytes.\<close>

definition sha_pad :: "nat list \<Rightarrow> nat list" where
  "sha_pad m =
     m @ [128] @ replicate ((119 - length m mod 64) mod 64) 0
       @ map (\<lambda>i. (8 * length m) div 256 ^ (7 - i) mod 256) [0..<8]"

definition be32 :: "nat list \<Rightarrow> 32 word" where
  "be32 bs = of_nat (foldl (\<lambda>a b. 256 * a + b) 0 bs)"

definition sha_blocks :: "nat list \<Rightarrow> 32 word list list" where
  "sha_blocks p =
     map (\<lambda>i. map (\<lambda>j. be32 (take 4 (drop (64 * i + 4 * j) p))) [0..<16])
         [0..<length p div 64]"

text \<open>The message schedule: each further word from the words 2, 7, 15 and 16 places back.\<close>

fun sha_extend :: "nat \<Rightarrow> 32 word list \<Rightarrow> 32 word list" where
  "sha_extend 0 ws = ws"
| "sha_extend (Suc n) ws =
     sha_extend n
       (ws @ [small_sigma1 (ws ! (length ws - 2)) + ws ! (length ws - 7)
              + small_sigma0 (ws ! (length ws - 15)) + ws ! (length ws - 16)])"

definition sha_round :: "32 word list \<Rightarrow> 32 word \<times> 32 word \<Rightarrow> 32 word list" where
  "sha_round s kw =
     (case s of
        [a, b, c, d, e, f, g, h] \<Rightarrow>
          (let t1 = h + big_sigma1 e + ch e f g + fst kw + snd kw;
               t2 = big_sigma0 a + maj a b c
           in [t1 + t2, a, b, c, d + t1, e, f, g])
      | _ \<Rightarrow> s)"

definition sha_compress :: "32 word list \<Rightarrow> 32 word list \<Rightarrow> 32 word list" where
  "sha_compress s block =
     map (\<lambda>(x, y). x + y) (zip s (foldl sha_round s (zip sha_k (sha_extend 48 block))))"

definition sha256 :: "nat list \<Rightarrow> 32 word list" where
  "sha256 m = foldl sha_compress sha_h0 (sha_blocks (sha_pad m))"

definition hex_digit :: "nat \<Rightarrow> char" where
  "hex_digit n = ''0123456789abcdef'' ! (n mod 16)"

definition hex_word :: "32 word \<Rightarrow> string" where
  "hex_word w = map (\<lambda>i. hex_digit (unat w div 16 ^ (7 - i))) [0..<8]"

definition sha256_hexdigest :: "nat list \<Rightarrow> string" where
  "sha256_hexdigest m = concat (map hex_word (sha256 m))"

subsection \<open>The three fingerprints\<close>

definition normalize_text :: "string \<Rightarrow> string" where
  "normalize_text text = py_join '' '' (py_split (py_lower (py_strip text)))"

definition hash_text :: "string \<Rightarrow> string" where
  "hash_text text = sha256_hexdigest (utf8_encode (normalize_text text))"

definition normalize_url :: "string \<Rightarrow> string" where
  "normalize_url url = py_lower (py_strip url)"

definition hash_url :: "string \<Rightarrow> string" where
  "hash_url url = sha256_hexdigest (utf8_encode (normalize_url url))"

subsection \<open>\<open>base64.b64decode\<close> and the fingerprint of an inline image\<close>

fun show_nat :: "nat \<Rightarrow> string" where
  "show_nat n =
     (if n < 10 then [char_of (48 + n)]
      else show_nat (n div 10) @ [char_of (48 + n mod 10)])"

definition b64_val :: "char \<Rightarrow> nat option" where
  "b64_val c =
     (let n = (of_char c :: nat)
      in if 65 \<le> n \<and> n \<le> 90 then Some (n - 65)
         else if 97 \<le> n \<and> n \<le> 122 then Some (n - 71)
         else if 48 \<le> n \<and> n \<le> 57 then Some (n + 4)
         else if c = CHR ''+'' then Some 62
         else if c = CHR ''/'' then Some 63
         else None)"

text \<open>The lenient decoder: characters outside the alphabet are skipped, a complete padding
  ends the input. \<open>q\<close> is the position in the current group of four, \<open>left\<close> the bits not
  yet written, \<open>pads\<close> the padding seen, \<open>n\<close> the number of data characters, \<open>out\<close> the
  bytes in reverse.\<close>

fun b64_scan :: "nat \<Rightarrow> nat \<Rightarrow> nat \<Rightarrow> nat \<Rightarrow> nat list \<Rightarrow> string \<Rightarrow> pyexn + nat list" where
  "b64_scan q left pads n out [] =
     (if q = 0 then Inr (rev out)
      else if q = 1 then
        Inl (Exception (''Invalid base64-encoded string: number of data characters (''
                        @ show_nat n @ '') cannot be 1 more than a multiple of 4''))
      else Inl (Exception ''Incorrect padding''))"
| "b64_scan q left pads n out (c # cs) =
     (if c = CHR ''='' then
        (if 2 \<le> q \<and> 4 \<le> q + Suc pads then Inr (rev out)
         else b64_scan q left (if 2 \<le> q then Suc pads else pads) n out cs)
      else
        (case b64_val c of
           None \<Rightarrow> b64_scan q left pads n out cs
         | Some v \<Rightarrow>
             if q = 0 then b64_scan 1 v 0 (Suc n) out cs
             else if q = 1 then b64_scan 2 (v mod 16) 0 (Suc n) ((left * 4 + v div 16) # out) cs
             else if q = 2 then b64_scan 3 (v mod 4) 0 (Suc n) ((left * 16 + v div 4) # out) cs
             else b64_scan 0 0 0 (Suc n) ((left * 64 + v) # out) cs))"

definition b64decode :: "string \<Rightarrow> pyexn + nat list" where
  "b64decode s =
     (if list_all (\<lambda>c. (of_char c :: nat) < 128) s then b64_scan 0 0 0 0 [] s
      else Inl (Exception ''string argument should contain only ASCII characters''))"

text \<open>\<open>hash_image\<close> on a \<open>str\<close>: a data-URI prefix is cut at the first comma.\<close>

definition hash_image :: "string \<Rightarrow> pyexn + string" where
  "hash_image image_data =
     (case (if starts_with ''data:image'' image_data
            then (case dropWhile (\<lambda>c. c \<noteq> CHR '','') image_data of
                    [] \<Rightarrow> Inl (Exception ''list index out of range'')
                  | _ # rest \<Rightarrow> Inr rest)
            else Inr image_data) of
        Inl e \<Rightarrow> Inl e
      | Inr payload \<Rightarrow>
          (case b64decode payload of
             Inl e \<Rightarrow> Inl e
           | Inr image_bytes \<Rightarrow> Inr (sha256_hexdigest image_bytes)))"

section \<open>Moderation store (\<open>app/models/models.py\<close>)\<close>

text \<open>
  A table is the list of its rows in insertion order. A query without \<open>ORDER BY\<close> scans
  the rows in that order, so \<open>.first()\<close> is the first matching row. Timestamps are natural
  numbers read from the server clock. The store and the response schema are taken to accept
  the parsed fields as they are.
\<close>

record ModerationRequest =
  request_id :: nat
  email :: string
  content_type :: ContentType
  content_hash :: string
  status :: ModerationStatus
  created_at :: nat

record ModerationResult =
  result_id :: nat
  result_request_id :: nat
  result_classification :: ClassificationType
  result_confidence :: pyfloat
  result_reasoning :: json
  result_llm_response :: string
  result_created_at :: nat

record NotificationLog =
  log_request_id :: nat
  channel :: NotificationChannel
  log_status :: NotificationStatus
  error_message :: "string option"
  sent_at :: "nat option"

record database =
  moderation_requests :: "ModerationRequest list"
  moderation_results :: "ModerationResult list"
  notification_logs :: "NotificationLog list"

text \<open>The next value of an auto-incremented primary key.\<close>

definition next_id :: "nat list \<Rightarrow> nat" where
  "next_id ids = Suc (fold max ids 0)"

text \<open>\<open>db.query(ModerationRequest).filter(content_hash == h, content_type == ct).first()\<close>\<close>

definition find_existing_request ::
  "database \<Rightarrow> string \<Rightarrow> ContentType \<Rightarrow> ModerationRequest option" where
  "find_existing_request db h ct =
     find (\<lambda>r. content_hash r = h \<and> content_type r = ct) (moderation_requests db)"

text \<open>\<open>db.query(ModerationResult).filter(request_id == rid).order_by(created_at.desc()).first()\<close>:
  a row of greatest \<open>created_at\<close>, the first scanned among equals.\<close>

fun latest_of :: "ModerationResult list \<Rightarrow> ModerationResult option" where
  "latest_of [] = None"
| "latest_of (x # xs) =
     (case latest_of xs of
        None \<Rightarrow> Some x
      | Some y \<Rightarrow> if result_created_at x < result_created_at y then Some y else Some x)"

definition latest_result :: "database \<Rightarrow> nat \<Rightarrow> ModerationResult option" where
  "latest_result db rid =
     latest_of (filter (\<lambda>x. result_request_id x = rid) (moderation_results db))"

definition find_request_by_id :: "database \<Rightarrow> nat \<Rightarrow> ModerationRequest option" where
  "find_request_by_id db rid = find (\<lambda>r. request_id r = rid) (moderation_requests db)"

definition add_request ::
  "database \<Rightarrow> string \<Rightarrow> ContentType \<Rightarrow> string \<Rightarrow> nat \<Rightarrow> ModerationRequest \<times> database" where
  "add_request db em ct h now =
     (let r = \<lparr> request_id = next_id (map request_id (moderation_requests db)),
                 email = em, content_type = ct, content_hash = h,
                 status = PROCESSING, created_at = now \<rparr>
      in (r, db\<lparr> moderation_requests := moderation_requests db @ [r] \<rparr>))"

definition set_status :: "database \<Rightarrow> nat \<Rightarrow> ModerationStatus \<Rightarrow> database" where
  "set_status db rid st =
     db\<lparr> moderation_requests :=
           map (\<lambda>r. if request_id r = rid then r\<lparr> status := st \<rparr> else r)
               (moderation_requests db) \<rparr>"

definition add_result :: "database \<Rightarrow> nat \<Rightarrow> llm_result \<Rightarrow> nat \<Rightarrow> database" where
  "add_result db rid res now =
     db\<lparr> moderation_results := moderation_results db @
           [\<lparr> result_id = next_id (map result_id (moderation_results db)),
              result_request_id = rid,
              result_classification = classification res,
              result_confidence = confidence res,
              result_reasoning = reasoning res,
              result_llm_response = llm_response res,
              result_created_at = now \<rparr>] \<rparr>"

section \<open>Collaborators outside the pipeline\<close>

text \<open>
  What the network and the configuration supply to one submission: the answer of the
  language model to a text or an image (its raw text, or the exception of the call), the
  outcome of acquiring an image, the outcome of each channel's HTTP call as a function of
  the alert's arguments, the configured channels and the reading of the server clock.
\<close>

record notification_task =
  task_request_id :: nat
  task_email :: string
  task_classification :: ClassificationType
  task_content_type :: string
  task_content_preview :: string
  task_confidence :: pyfloat
  task_reasoning :: json

record environment =
  generate_text :: "string \<Rightarrow> pyexn + string"
  generate_image :: "nat list \<Rightarrow> string \<Rightarrow> pyexn + string"
  process_image_url :: "string \<Rightarrow> pyexn + (nat list \<times> string)"
  process_image_base64 :: "string \<Rightarrow> pyexn + (nat list \<times> string)"
  slack_post :: "notification_task \<Rightarrow> pyexn + string"
  email_post :: "notification_task \<Rightarrow> pyexn + string"
  slack_webhook_url :: "string option"
  brevo_api_key :: "string option"
  brevo_sender_email :: "string option"
  now :: nat

definition configured :: "string option \<Rightarrow> bool" where
  "configured v = (case v of None \<Rightarrow> False | Some s \<Rightarrow> s \<noteq> [])"

section \<open>Classification client (\<open>LLMService.moderate_text\<close>, \<open>moderate_image\<close>)\<close>

definition llm_moderate_text :: "environment \<Rightarrow> string \<Rightarrow> pyexn + llm_result" where
  "llm_moderate_text env text =
     (case generate_text env text of
        Inl e \<Rightarrow> Inl e
      | Inr result_text \<Rightarrow> Inr (parse_llm_response result_text))"

definition llm_moderate_image ::
  "environment \<Rightarrow> nat list \<Rightarrow> string \<Rightarrow> pyexn + llm_result" where
  "llm_moderate_image env image_data image_description =
     (case generate_image env image_data image_description of
        Inl e \<Rightarrow> Inl e
      | Inr result_text \<Rightarrow> Inr (parse_llm_response result_text))"

section \<open>Moderation orchestrator (\<open>app/routes/moderation.py\<close>)\<close>

record TextRequest =
  req_email :: string
  req_text :: string

record ImageRequest =
  img_email :: string
  image_url :: "string option"
  image_base64 :: "string option"

text \<open>\<open>TextModerationResponse\<close> and \<open>ImageModerationResponse\<close> have the same fields.\<close>

record ModerationResponse =
  success :: bool
  resp_request_id :: nat
  resp_classification :: ClassificationType
  resp_confidence :: pyfloat
  resp_reasoning :: json
  message :: string

record HTTPException =
  status_code :: nat
  detail :: string

text \<open>What one call does besides answering and writing to the store: the texts and image
  descriptions sent to the classifier, the image sources acquired, and the alerts handed to
  the background task queue.\<close>

record effects =
  llm_calls :: "string list"
  image_acquisitions :: "string list"
  background_tasks :: "notification_task list"

definition no_effects :: effects where
  "no_effects = \<lparr> llm_calls = [], image_acquisitions = [], background_tasks = [] \<rparr>"

text \<open>The duplicate check shared by both routes: the first request with this fingerprint
  and kind, and its latest result if it has one.\<close>

definition cached_verdict ::
  "database \<Rightarrow> string \<Rightarrow> ContentType \<Rightarrow> (ModerationRequest \<times> ModerationResult) option" where
  "cached_verdict db h ct =
     (case find_existing_request db h ct of
        None \<Rightarrow> None
      | Some existing_request \<Rightarrow>
          (case latest_result db (request_id existing_request) of
             None \<Rightarrow> None
           | Some latest \<Rightarrow> Some (existing_request, latest)))"

definition cached_response :: "ModerationRequest \<Rightarrow> ModerationResult \<Rightarrow> ModerationResponse" where
  "cached_response existing_request latest =
     \<lparr> success = True,
       resp_request_id = request_id existing_request,
       resp_classification = result_classification latest,
       resp_confidence = result_confidence latest,
       resp_reasoning = result_reasoning latest,
       message = ''Content analyzed successfully (cached result)'' \<rparr>"

definition fresh_response :: "nat \<Rightarrow> llm_result \<Rightarrow> ModerationResponse" where
  "fresh_response rid res =
     \<lparr> success = True,
       resp_request_id = rid,
       resp_classification = classification res,
       resp_confidence = confidence res,
       resp_reasoning = reasoning res,
       message = ''Content analyzed successfully'' \<rparr>"

definition make_task ::
  "nat \<Rightarrow> string \<Rightarrow> llm_result \<Rightarrow> string \<Rightarrow> string \<Rightarrow> notification_task" where
  "make_task rid em res kind preview =
     \<lparr> task_request_id = rid, task_email = em,
       task_classification = classification res,
       task_content_type = kind, task_content_preview = preview,
       task_confidence = confidence res, task_reasoning = reasoning res \<rparr>"

definition moderate_text ::
  "environment \<Rightarrow> TextRequest \<Rightarrow> database \<Rightarrow> (HTTPException + ModerationResponse) \<times> effects \<times> database" where
  "moderate_text env request db =
     (let content_hash = hash_text (req_text request)
      in case cached_verdict db content_hash TEXT of
           Some (existing_request, latest) \<Rightarrow>
             (Inr (cached_response existing_request latest), no_effects, db)
         | None \<Rightarrow>
             (let (moderation_request, db1) =
                    add_request db (req_email request) TEXT content_hash (now env);
                  rid = request_id moderation_request
              in case llm_moderate_text env (req_text request) of
                   Inl e \<Rightarrow>
                     (Inl \<lparr> status_code = 500,
                            detail = ''Failed to analyze text content: '' @ str_e e \<rparr>,
                      no_effects\<lparr> llm_calls := [req_text request] \<rparr>,
                      set_status db1 rid FAILED)
                 | Inr llm_res \<Rightarrow>
                     (Inr (fresh_response rid llm_res),
                      \<lparr> llm_calls = [req_text request],
                        image_acquisitions = [],
                        background_tasks =
                          (if truthy (flagged llm_res)
                           then [make_task rid (req_email request) llm_res ''text''
                                   (take 200 (req_text request))]
                           else []) \<rparr>,
                      set_status (add_result db1 rid llm_res (now env)) rid COMPLETED)))"

text \<open>The first step of the image route: acquire the image, then fingerprint its source.\<close>

definition acquire_image ::
  "environment \<Rightarrow> ImageRequest \<Rightarrow> (pyexn + (nat list \<times> string \<times> string)) \<times> string list" where
  "acquire_image env request =
     (if configured (image_url request) then
        (let url = the (image_url request)
         in (case process_image_url env url of
               Inl e \<Rightarrow> Inl e
             | Inr (image_bytes, mime_type) \<Rightarrow>
                 Inr (image_bytes, hash_url url, ''Image from URL: '' @ url),
             [url]))
      else if configured (image_base64 request) then
        (let b64 = the (image_base64 request)
         in (case process_image_base64 env b64 of
               Inl e \<Rightarrow> Inl e
             | Inr (image_bytes, mime_type) \<Rightarrow>
                 (case hash_image b64 of
                    Inl e \<Rightarrow> Inl e
                  | Inr h \<Rightarrow> Inr (image_bytes, h, ''Image from base64 data'')),
             [b64]))
      else
        (Inl (Exception ''400: Either image_url or image_base64 must be provided''), []))"

definition moderate_image ::
  "environment \<Rightarrow> ImageRequest \<Rightarrow> database \<Rightarrow> (HTTPException + ModerationResponse) \<times> effects \<times> database" where
  "moderate_image env request db =
     (case acquire_image env request of
        (Inl e, acquired) \<Rightarrow>
          (Inl \<lparr> status_code = 500,
                 detail = ''Failed to analyze image content: '' @ str_e e \<rparr>,
           no_effects\<lparr> image_acquisitions := acquired \<rparr>,
           db)
      | (Inr img, acquired) \<Rightarrow>
          (let image_bytes = fst img;
               content_hash = fst (snd img);
               content_preview = snd (snd img)
           in case cached_verdict db content_hash IMAGE of
             Some (existing_request, latest) \<Rightarrow>
               (Inr (cached_response existing_request latest),
                no_effects\<lparr> image_acquisitions := acquired \<rparr>,
                db)
           | None \<Rightarrow>
               (let (moderation_request, db1) =
                      add_request db (img_email request) IMAGE content_hash (now env);
                    rid = request_id moderation_request
                in case llm_moderate_image env image_bytes content_preview of
                     Inl e \<Rightarrow>
                       (Inl \<lparr> status_code = 500,
                              detail = ''Failed to analyze image content: '' @ str_e e \<rparr>,
                        \<lparr> llm_calls = [content_preview],
                          image_acquisitions = acquired,
                          background_tasks = [] \<rparr>,
                        set_status db1 rid FAILED)
                   | Inr llm_res \<Rightarrow>
                       (Inr (fresh_response rid llm_res),
                        \<lparr> llm_calls = [content_preview],
                          image_acquisitions = acquired,
                          background_tasks =
                            (if truthy (flagged llm_res)
                             then [make_task rid (img_email request) llm_res ''image''
                                     content_preview]
                             else []) \<rparr>,
                        set_status (add_result db1 rid llm_res (now env)) rid COMPLETED))))"

section \<open>Notification dispatcher (\<open>app/services/notification_service.py\<close>)\<close>

text \<open>The result of one channel: \<open>{'status': 'sent', ...}\<close> or
  \<open>{'status': 'failed', 'error': str(e)}\<close>.\<close>

datatype channel_result = ChannelSent string | ChannelFailed string

definition attempt :: "pyexn + string \<Rightarrow> channel_result" where
  "attempt outcome =
     (case outcome of Inr response \<Rightarrow> ChannelSent response | Inl e \<Rightarrow> ChannelFailed (str_e e))"

definition send_notifications ::
  "environment \<Rightarrow> notification_task \<Rightarrow> (string \<times> channel_result) list" where
  "send_notifications env t =
     (if task_classification t = SAFE then []
      else
        (if configured (slack_webhook_url env)
         then [(''slack'', attempt (slack_post env t))] else [])
        @ (if configured (brevo_api_key env) \<and> configured (brevo_sender_email env)
           then [(''email'', attempt (email_post env t))] else []))"

definition notification_log :: "nat \<Rightarrow> nat \<Rightarrow> string \<times> channel_result \<Rightarrow> NotificationLog" where
  "notification_log rid created entry =
     \<lparr> log_request_id = rid,
       channel = (if fst entry = ''slack'' then SLACK else EMAIL),
       log_status = (case snd entry of ChannelSent _ \<Rightarrow> SENT | ChannelFailed _ \<Rightarrow> NOTIFY_FAILED),
       error_message = (case snd entry of ChannelSent _ \<Rightarrow> None | ChannelFailed m \<Rightarrow> Some m),
       sent_at = Some created \<rparr>"

text \<open>\<open>send_notifications_background\<close>: the results are logged with the creation time of
  the request; an exception (the request row is missing) is caught and nothing is written.\<close>

definition send_notifications_background ::
  "environment \<Rightarrow> notification_task \<Rightarrow> database \<Rightarrow> database" where
  "send_notifications_background env t db =
     (let notification_results = send_notifications env t
      in if notification_results = [] then db
         else (case find_request_by_id db (task_request_id t) of
                 None \<Rightarrow> db
               | Some r \<Rightarrow>
                   db\<lparr> notification_logs := notification_logs db @
                         map (notification_log (task_request_id t) (created_at r))
                             notification_results \<rparr>))"

text \<open>One HTTP request to the text route: the handler answers, then the queued background
  tasks run in order.\<close>

definition submit_text ::
  "environment \<Rightarrow> TextRequest \<Rightarrow> database \<Rightarrow> (HTTPException + ModerationResponse) \<times> effects \<times> database" where
  "submit_text env request db =
     (case moderate_text env request db of
        (answer, eff, db1) \<Rightarrow>
          (answer, eff, foldl (\<lambda>d t. send_notifications_background env t d) db1 (background_tasks eff)))"

definition submit_image ::
  "environment \<Rightarrow> ImageRequest \<Rightarrow> database \<Rightarrow> (HTTPException + ModerationResponse) \<times> effects \<times> database" where
  "submit_image env request db =
     (case moderate_image env request db of
        (answer, eff, db1) \<Rightarrow>
          (answer, eff, foldl (\<lambda>d t. send_notifications_background env t d) db1 (background_tasks eff)))"

section \<open>Concrete stores and collaborators for the examples\<close>

definition empty_db :: database where
  "empty_db = \<lparr> moderation_requests = [], moderation_results = [], notification_logs = [] \<rparr>"

text \<open>A collaborator set-up in which the language model gives the same outcome to every call,
  every image is acquired, both channels accept every alert, and the clock reads \<open>clock\<close>.\<close>

definition example_env ::
  "(pyexn + string) \<Rightarrow> string option \<Rightarrow> string option \<Rightarrow> nat \<Rightarrow> environment" where
  "example_env outcome slack brevo clock =
     \<lparr> generate_text = (\<lambda>text. outcome),
       generate_image = (\<lambda>image_data image_description. outcome),
       process_image_url = (\<lambda>url. Inr ([255, 216, 255], ''image/jpeg'')),
       process_image_base64 = (\<lambda>b64. Inr ([255, 216, 255], ''image/jpeg'')),
       slack_post = (\<lambda>t. Inr ''ok''),
       email_post = (\<lambda>t. Inr ''{}''),
       slack_webhook_url = slack,
       brevo_api_key = brevo,
       brevo_sender_email = brevo,
       now = clock \<rparr>"

text \<open>A submission, and the stores its repetition leaves behind: after a first call whose
  classification failed, after the second call that then succeeded, and after a first call
  that succeeded at once.\<close>

definition example_request :: TextRequest where
  "example_request = \<lparr> req_email = ''user@example.com'', req_text = ''Buy  CHEAP pills'' \<rparr>"

definition example_result :: "nat \<Rightarrow> nat \<Rightarrow> nat \<Rightarrow> ModerationResult" where
  \<open>example_result i rid t =
     \<lparr> result_id = i, result_request_id = rid, result_classification = SPAM,
       result_confidence = Fin (1 / 2), result_reasoning = JString ''No reasoning provided'',
       result_llm_response = ''{"classification":"spam","flagged":true}'',
       result_created_at = t \<rparr>\<close>

definition example_row :: "nat \<Rightarrow> ModerationStatus \<Rightarrow> nat \<Rightarrow> ModerationRequest" where
  "example_row rid st t =
     \<lparr> request_id = rid, email = ''user@example.com'', content_type = TEXT,
       content_hash = hash_text (req_text example_request), status = st, created_at = t \<rparr>"

definition db_after_failure :: database where
  "db_after_failure =
     \<lparr> moderation_requests = [example_row 1 FAILED 1],
       moderation_results = [], notification_logs = [] \<rparr>"

definition db_after_retry :: database where
  "db_after_retry =
     \<lparr> moderation_requests = [example_row 1 FAILED 1, example_row 2 COMPLETED 2],
       moderation_results = [example_result 1 2 2], notification_logs = [] \<rparr>"

definition db_after_success :: database where
  "db_after_success =
     \<lparr> moderation_requests = [example_row 1 COMPLETED 1],
       moderation_results = [example_result 1 1 1], notification_logs = [] \<rparr>"

text \<open>Two characters that are the same letter, in the same or in different case.\<close>

definition case_variant :: "char \<Rightarrow> char \<Rightarrow> bool" where
  "case_variant c d = (c = d \<or> lower_char c = d \<or> lower_char d = c)"


text \<open>The store after a first submission of an image by URL.\<close>

definition example_image_db :: database where
  "example_image_db =
     \<lparr> moderation_requests =
         [\<lparr> request_id = 1, email = ''user@example.com'', content_type = IMAGE,
            content_hash = hash_url ''https://cdn.example.com/Cat.JPG'',
            status = COMPLETED, created_at = 1 \<rparr>],
       moderation_results = [example_result 1 1 1], notification_logs = [] \<rparr>"

text \<open>A word: a non-empty text without whitespace.\<close>

definition word :: "string \<Rightarrow> bool" where
  "word w = (w \<noteq> [] \<and> (\<forall>c \<in> set w. \<not> py_isspace c))"

section \<open>Verified properties\<close>

subsection \<open>The verdict parser\<close>

lemma clamp_unit: "unit_interval (py_max (Fin 0) (py_min (Fin 1) c))"
  by (cases c) (auto simp: py_min_def py_max_def unit_interval_def)

lemma clamp_half: "py_max (Fin 0) (py_min (Fin 1) (Fin (1 / 2))) = Fin (1 / 2)"
  by (simp add: py_min_def py_max_def)

lemma parse_matched_well_formed:
  "parse_matched loads js t = Inr r \<Longrightarrow> well_formed t r"
  by (auto simp: parse_matched_def well_formed_def clamp_unit split: sum.splits)

lemma parse_with_well_formed: "well_formed t (parse_llm_response_with loads t)"
proof (cases "re_search_braces t")
  case None
  then show ?thesis
    by (simp add: parse_llm_response_with_def well_formed_def unit_interval_def)
next
  case (Some js)
  then show ?thesis
    by (cases "parse_matched loads js t")
       (simp_all add: parse_llm_response_with_def parse_matched_well_formed,
        simp add: well_formed_def unit_interval_def)
qed

text \<open>
  Claim C3. For every input string, whatever the decoder does with it, the parser returns a
  well-formed verdict: every exception raised on the way is caught and turned into the
  fallback. When no structured fragment is found or it does not decode, the verdict is
  \<open>safe\<close> with confidence 0.5, not flagged, and retains the full raw text.
\<close>
theorem parse_total:
  "well_formed t (parse_llm_response_with loads t) \<and>
   (decoded_fragment loads t = None \<longrightarrow>
      classification (parse_llm_response_with loads t) = SAFE \<and>
      confidence (parse_llm_response_with loads t) = Fin 0.5 \<and>
      flagged (parse_llm_response_with loads t) = JBool False \<and>
      llm_response (parse_llm_response_with loads t) = t)"
proof (cases "re_search_braces t")
  case None
  then show ?thesis
    by (simp add: parse_llm_response_with_def well_formed_def unit_interval_def)
next
  case (Some js)
  show ?thesis
  proof (cases "parse_matched loads js t")
    case (Inl e)
    with Some show ?thesis
      by (simp add: parse_llm_response_with_def well_formed_def unit_interval_def)
  next
    case (Inr r)
    then have wf: "well_formed t r" by (rule parse_matched_well_formed)
    have dec: "decoded_fragment loads t \<noteq> None"
      using Some Inr by (auto simp: decoded_fragment_def parse_matched_def split: sum.splits)
    from Some Inr wf dec show ?thesis
      by (auto simp: parse_llm_response_with_def)
  qed
qed

theorem parse_total_witness:
  \<open>decoded_fragment json_loads ''I cannot judge {this text'' = None \<and>
   classification (parse_llm_response_with json_loads ''I cannot judge {this text'') = SAFE \<and>
   confidence (parse_llm_response_with json_loads ''I cannot judge {this text'') = Fin 0.5 \<and>
   flagged (parse_llm_response_with json_loads ''I cannot judge {this text'') = JBool False \<and>
   llm_response (parse_llm_response_with json_loads ''I cannot judge {this text'')
     = ''I cannot judge {this text''\<close>
proof -
  have h: \<open>decoded_fragment json_loads ''I cannot judge {this text'' = None\<close>
    by (simp add: decoded_fragment_def re_search_braces_def)
  from parse_total [of "''I cannot judge {this text''" json_loads] h show ?thesis
    by blast
qed

text \<open>
  Claim C4. Whatever the raw confidence value is, the parsed confidence lies in \<open>[0, 1]\<close>;
  it is 0.5 whenever the raw value is missing or is not numeric, that is, is a value that
  \<open>float()\<close> rejects (\<open>null\<close>, an array, an object, a string that is no float literal, an
  integer beyond the range of a double).
\<close>
theorem confidence_clamped:
  "unit_interval (confidence (parse_llm_response_with loads t)) \<and>
   ((case raw_confidence loads t of None \<Rightarrow> True | Some v \<Rightarrow> \<not> numeric v) \<longrightarrow>
      confidence (parse_llm_response_with loads t) = Fin 0.5)"
proof -
  have a: "unit_interval (confidence (parse_llm_response_with loads t))"
    using parse_with_well_formed [of t loads] by (simp add: well_formed_def)
  have b: "confidence (parse_llm_response_with loads t) = Fin 0.5"
    if "case raw_confidence loads t of None \<Rightarrow> True | Some v \<Rightarrow> \<not> numeric v"
    using that
    by (auto simp: parse_llm_response_with_def parse_matched_def raw_confidence_def
        decoded_fragment_def numeric_def clamp_half
        split: option.splits sum.splits json.splits)
  from a b show ?thesis by blast
qed

theorem confidence_clamped_witness:
  \<open>(case raw_confidence json_loads ''{"classification": "spam", "confidence": "high"}'' of
      None \<Rightarrow> True | Some v \<Rightarrow> \<not> numeric v) \<and>
   confidence (parse_llm_response_with json_loads
      ''{"classification": "spam", "confidence": "high"}'') = Fin 0.5\<close>
proof -
  have h: \<open>case raw_confidence json_loads ''{"classification": "spam", "confidence": "high"}'' of
      None \<Rightarrow> True | Some v \<Rightarrow> \<not> numeric v\<close>
    by code_simp
  from confidence_clamped [of json_loads \<open>''{"classification": "spam", "confidence": "high"}''\<close>] h
  show ?thesis by blast
qed






lemma cached_verdict_empty: "cached_verdict empty_db h ct = None"
  by (simp add: cached_verdict_def find_existing_request_def empty_db_def)


lemma parse_spam_flagged:
  \<open>parse_llm_response ''{"classification":"spam","flagged":true}''
   = \<lparr> classification = SPAM, confidence = Fin (1 / 2),
       reasoning = JString ''No reasoning provided'', flagged = JBool True,
       llm_response = ''{"classification":"spam","flagged":true}'' \<rparr>\<close>
  by code_simp

subsection \<open>The gate of notification dispatch\<close>




subsection \<open>The store\<close>

lemma fold_max_ge: "(a::nat) \<le> fold max xs a \<and> (\<forall>x \<in> set xs. x \<le> fold max xs a)"
proof (induction xs arbitrary: a)
  case Nil
  then show ?case by simp
next
  case (Cons y ys)
  have "max y a \<le> fold max ys (max y a)" using Cons [of "max y a"] by blast
  moreover have "\<forall>x \<in> set ys. x \<le> fold max ys (max y a)" using Cons [of "max y a"] by blast
  ultimately show ?case by auto
qed

lemma next_id_fresh: "x \<in> set ids \<Longrightarrow> x < next_id ids"
  using fold_max_ge [of 0 ids] by (auto simp: next_id_def less_Suc_eq_le)

lemma set_status_fresh:
  assumes "rid = next_id (map request_id rows)"
  shows "map (\<lambda>r. if request_id r = rid then r\<lparr> status := st \<rparr> else r) rows = rows"
proof (rule map_idI)
  fix r assume "r \<in> set rows"
  then have "request_id r < rid" using assms next_id_fresh [of "request_id r"] by simp
  then show "(if request_id r = rid then r\<lparr> status := st \<rparr> else r) = r" by simp
qed

lemma set_status_new_request:
  "moderation_requests (set_status (snd (add_request db em ct h t))
       (request_id (fst (add_request db em ct h t))) st) =
     moderation_requests db @
       [\<lparr> request_id = next_id (map request_id (moderation_requests db)),
          email = em, content_type = ct, content_hash = h, status = st, created_at = t \<rparr>]"
  by (simp add: set_status_def add_request_def Let_def set_status_fresh)

lemma moderate_text_miss_failure:
  assumes "cached_verdict db (hash_text (req_text request)) TEXT = None"
    and "generate_text env (req_text request) = Inl e"
  shows "moderate_text env request db =
           (Inl \<lparr> status_code = 500,
                  detail = ''Failed to analyze text content: '' @ str_e e \<rparr>,
            no_effects\<lparr> llm_calls := [req_text request] \<rparr>,
            set_status (snd (add_request db (req_email request) TEXT
                               (hash_text (req_text request)) (now env)))
              (request_id (fst (add_request db (req_email request) TEXT
                               (hash_text (req_text request)) (now env)))) FAILED)"
  using assms
  by (simp add: moderate_text_def llm_moderate_text_def Let_def split: prod.splits)

lemma moderate_text_miss_success:
  assumes "cached_verdict db (hash_text (req_text request)) TEXT = None"
    and "generate_text env (req_text request) = Inr raw"
  shows "moderate_text env request db =
           (Inr (fresh_response (next_id (map request_id (moderation_requests db)))
                   (parse_llm_response raw)),
            \<lparr> llm_calls = [req_text request], image_acquisitions = [],
              background_tasks =
                (if truthy (flagged (parse_llm_response raw))
                 then [make_task (next_id (map request_id (moderation_requests db)))
                         (req_email request) (parse_llm_response raw) ''text''
                         (take 200 (req_text request))]
                 else []) \<rparr>,
            set_status
              (add_result (snd (add_request db (req_email request) TEXT
                                  (hash_text (req_text request)) (now env)))
                 (next_id (map request_id (moderation_requests db)))
                 (parse_llm_response raw) (now env))
              (next_id (map request_id (moderation_requests db))) COMPLETED)"
  using assms
  by (simp add: moderate_text_def llm_moderate_text_def add_request_def Let_def)

subsection \<open>Failure of the classification call\<close>

text \<open>
  Claim C7, as stated, fails in its last part: the message of the failure is not generic.
  When the upstream call raises with the text \<open>429 Quota exceeded for project 1234\<close>, the
  caller receives that text verbatim after the fixed prefix.
\<close>

theorem upstream_failure_counterexample:
  "fst (submit_text
         (example_env (Inl (Exception ''429 Quota exceeded for project 1234'')) None None 7)
         \<lparr> req_email = ''user@example.com'', req_text = ''hello'' \<rparr> empty_db)
   = Inl \<lparr> status_code = 500,
           detail = ''Failed to analyze text content: '' @ ''429 Quota exceeded for project 1234'' \<rparr>"
proof -
  have g: "generate_text
             (example_env (Inl (Exception ''429 Quota exceeded for project 1234'')) None None 7)
             (req_text \<lparr> req_email = ''user@example.com'', req_text = ''hello'' \<rparr>)
           = Inl (Exception ''429 Quota exceeded for project 1234'')"
    by (simp add: example_env_def)
  show ?thesis
    using moderate_text_miss_failure [OF cached_verdict_empty g]
    by (simp add: submit_text_def no_effects_def)
qed

text \<open>
  Claim C7, amended. When the classification call fails after the request was created, the
  request is stored with status \<open>failed\<close>, no result row and no notification log is written,
  no alert is queued, and the caller receives status 500 whose detail is the prefix
  \<open>Failed to analyze text content: \<close> followed by the text of the upstream error.
\<close>

theorem upstream_failure:
  assumes "cached_verdict db (hash_text (req_text request)) TEXT = None"
    and "generate_text env (req_text request) = Inl e"
  shows "fst (submit_text env request db) =
           Inl \<lparr> status_code = 500,
                 detail = ''Failed to analyze text content: '' @ str_e e \<rparr> \<and>
         background_tasks (fst (snd (submit_text env request db))) = [] \<and>
         moderation_requests (snd (snd (submit_text env request db))) =
           moderation_requests db @
             [\<lparr> request_id = next_id (map request_id (moderation_requests db)),
                email = req_email request, content_type = TEXT,
                content_hash = hash_text (req_text request),
                status = FAILED, created_at = now env \<rparr>] \<and>
         moderation_results (snd (snd (submit_text env request db))) = moderation_results db \<and>
         notification_logs (snd (snd (submit_text env request db))) = notification_logs db"
proof -
  let ?db1 = "set_status (snd (add_request db (req_email request) TEXT
                               (hash_text (req_text request)) (now env)))
              (request_id (fst (add_request db (req_email request) TEXT
                               (hash_text (req_text request)) (now env)))) FAILED"
  have s: "submit_text env request db =
           (Inl \<lparr> status_code = 500,
                  detail = ''Failed to analyze text content: '' @ str_e e \<rparr>,
            no_effects\<lparr> llm_calls := [req_text request] \<rparr>, ?db1)"
    using moderate_text_miss_failure [OF assms] by (simp add: submit_text_def no_effects_def)
  have r: "moderation_requests ?db1 =
           moderation_requests db @
             [\<lparr> request_id = next_id (map request_id (moderation_requests db)),
                email = req_email request, content_type = TEXT,
                content_hash = hash_text (req_text request),
                status = FAILED, created_at = now env \<rparr>]"
    by (rule set_status_new_request)
  have o: "moderation_results ?db1 = moderation_results db \<and>
           notification_logs ?db1 = notification_logs db"
    by (simp add: set_status_def add_request_def Let_def)
  from s r o show ?thesis by (simp add: no_effects_def)
qed

theorem upstream_failure_witness:
  "cached_verdict empty_db (hash_text (req_text
       \<lparr> req_email = ''user@example.com'', req_text = ''hello'' \<rparr>)) TEXT = None \<and>
   generate_text (example_env (Inl (Exception ''timed out'')) None None 7)
       (req_text \<lparr> req_email = ''user@example.com'', req_text = ''hello'' \<rparr>)
     = Inl (Exception ''timed out'') \<and>
   map status (moderation_requests (snd (snd (submit_text
       (example_env (Inl (Exception ''timed out'')) None None 7)
       \<lparr> req_email = ''user@example.com'', req_text = ''hello'' \<rparr> empty_db)))) = [FAILED] \<and>
   moderation_results (snd (snd (submit_text
       (example_env (Inl (Exception ''timed out'')) None None 7)
       \<lparr> req_email = ''user@example.com'', req_text = ''hello'' \<rparr> empty_db))) = []"
proof -
  have g: "generate_text (example_env (Inl (Exception ''timed out'')) None None 7)
       (req_text \<lparr> req_email = ''user@example.com'', req_text = ''hello'' \<rparr>)
     = Inl (Exception ''timed out'')"
    by (simp add: example_env_def)
  from upstream_failure [OF cached_verdict_empty g] cached_verdict_empty g
  show ?thesis by (simp add: empty_db_def)
qed

subsection \<open>Reaching the example stores\<close>

lemma generate_example [simp]: "generate_text (example_env outcome slack brevo t) text = outcome"
  by (simp add: example_env_def)

lemma now_example [simp]: "now (example_env outcome slack brevo t) = t"
  by (simp add: example_env_def)

lemma cached_after_failure:
  "cached_verdict db_after_failure (hash_text (req_text example_request)) TEXT = None"
  by (simp add: cached_verdict_def find_existing_request_def latest_result_def
      db_after_failure_def example_row_def)

lemma cached_after_retry:
  "cached_verdict db_after_retry (hash_text (req_text example_request)) TEXT = None"
  by (simp add: cached_verdict_def find_existing_request_def latest_result_def
      db_after_retry_def example_row_def example_result_def)

lemma reach_after_failure:
  "snd (snd (moderate_text (example_env (Inl (Exception ''timed out'')) None None 1)
       example_request empty_db)) = db_after_failure"
  using moderate_text_miss_failure [OF cached_verdict_empty,
      of "example_env (Inl (Exception ''timed out'')) None None 1" example_request "Exception ''timed out''"]
  by (simp add: empty_db_def db_after_failure_def example_row_def example_request_def
      set_status_def add_request_def next_id_def Let_def)

lemma reach_after_retry:
  \<open>moderate_text (example_env (Inr ''{"classification":"spam","flagged":true}'') None None 2)
       example_request db_after_failure =
     (Inr (fresh_response 2 (parse_llm_response ''{"classification":"spam","flagged":true}'')),
      \<lparr> llm_calls = [req_text example_request], image_acquisitions = [],
        background_tasks = [make_task 2 ''user@example.com''
           (parse_llm_response ''{"classification":"spam","flagged":true}'') ''text''
           (take 200 (req_text example_request))] \<rparr>,
      db_after_retry)\<close>
  using moderate_text_miss_success [OF cached_after_failure,
      of \<open>example_env (Inr ''{"classification":"spam","flagged":true}'') None None 2\<close>
         \<open>''{"classification":"spam","flagged":true}''\<close>]
  by (simp add: parse_spam_flagged db_after_failure_def db_after_retry_def example_row_def
      example_result_def example_request_def set_status_def add_request_def add_result_def
      next_id_def Let_def numeral_2_eq_2)


lemma requests_after_success:
  "moderation_requests (set_status (add_result (snd (add_request db em ct h t))
       (next_id (map request_id (moderation_requests db))) res t')
       (next_id (map request_id (moderation_requests db))) st) =
     moderation_requests db @
       [\<lparr> request_id = next_id (map request_id (moderation_requests db)),
          email = em, content_type = ct, content_hash = h, status = st, created_at = t \<rparr>]"
  by (simp add: set_status_def add_request_def add_result_def Let_def set_status_fresh)

lemma find_existing_in_store:
  "find_existing_request db h ct = Some r \<Longrightarrow> r \<in> set (moderation_requests db)"
  by (auto simp: find_existing_request_def find_Some_iff)

subsection \<open>A match without a verdict\<close>

text \<open>
  Claim C10. When the duplicate check finds a request with the submitted fingerprint and kind
  that has no stored verdict, the route does not return early: it invokes the classifier and
  stores a second request with the same fingerprint and kind.
\<close>

theorem verdictless_match_reclassifies:
  assumes "find_existing_request db (hash_text (req_text request)) TEXT = Some r"
    and "latest_result db (request_id r) = None"
  shows "llm_calls (fst (snd (moderate_text env request db))) = [req_text request] \<and>
         moderation_requests (snd (snd (moderate_text env request db))) =
           moderation_requests db @ [last (moderation_requests (snd (snd (moderate_text env request db))))] \<and>
         content_hash (last (moderation_requests (snd (snd (moderate_text env request db)))))
           = content_hash r \<and>
         content_type (last (moderation_requests (snd (snd (moderate_text env request db)))))
           = content_type r \<and>
         request_id (last (moderation_requests (snd (snd (moderate_text env request db)))))
           \<noteq> request_id r"
proof -
  have miss: "cached_verdict db (hash_text (req_text request)) TEXT = None"
    using assms by (simp add: cached_verdict_def)
  have rin: "r \<in> set (moderation_requests db)"
    using assms(1) by (rule find_existing_in_store)
  then have fresh: "request_id r \<noteq> next_id (map request_id (moderation_requests db))"
    using next_id_fresh [of "request_id r" "map request_id (moderation_requests db)"] by auto
  have key: "content_hash r = hash_text (req_text request) \<and> content_type r = TEXT"
    using assms(1) by (auto simp: find_existing_request_def find_Some_iff)
  show ?thesis
  proof (cases "generate_text env (req_text request)")
    case (Inl e)
    show ?thesis
      using moderate_text_miss_failure [OF miss Inl] fresh key
      by (simp add: set_status_new_request no_effects_def)
  next
    case (Inr raw)
    show ?thesis
      using moderate_text_miss_success [OF miss Inr] fresh key
      by (simp add: requests_after_success)
  qed
qed

theorem verdictless_match_reclassifies_witness:
  "find_existing_request db_after_failure (hash_text (req_text example_request)) TEXT
     = Some (example_row 1 FAILED 1) \<and>
   latest_result db_after_failure (request_id (example_row 1 FAILED 1)) = None \<and>
   llm_calls (fst (snd (moderate_text (example_env (Inl (Exception ''timed out'')) None None 2)
       example_request db_after_failure))) = [req_text example_request]"
proof -
  have f: "find_existing_request db_after_failure (hash_text (req_text example_request)) TEXT
     = Some (example_row 1 FAILED 1)"
    by (simp add: find_existing_request_def db_after_failure_def example_row_def)
  have l: "latest_result db_after_failure (request_id (example_row 1 FAILED 1)) = None"
    by (simp add: latest_result_def db_after_failure_def)
  from verdictless_match_reclassifies [OF f l] f l show ?thesis by blast
qed

subsection \<open>Which request the duplicate check selects\<close>




subsection \<open>Repeated submission of the same text\<close>

lemma background_keeps_tables:
  "moderation_requests (send_notifications_background env t d) = moderation_requests d \<and>
   moderation_results (send_notifications_background env t d) = moderation_results d"
  by (simp add: send_notifications_background_def Let_def split: option.splits)

lemma run_tasks_keeps_tables:
  "moderation_requests (foldl (\<lambda>d t. send_notifications_background env t d) d ts)
     = moderation_requests d \<and>
   moderation_results (foldl (\<lambda>d t. send_notifications_background env t d) d ts)
     = moderation_results d"
  by (induction ts arbitrary: d) (simp_all add: background_keeps_tables)

lemma moderate_text_hit:
  "cached_verdict db (hash_text (req_text request)) TEXT = Some (r, v) \<Longrightarrow>
   moderate_text env request db = (Inr (cached_response r v), no_effects, db)"
  by (simp add: moderate_text_def)

lemma submit_text_hit:
  "cached_verdict db (hash_text (req_text request)) TEXT = Some (r, v) \<Longrightarrow>
   submit_text env request db = (Inr (cached_response r v), no_effects, db)"
  by (simp add: submit_text_def moderate_text_hit no_effects_def)

lemma find_append_last:
  "\<forall>x \<in> set xs. \<not> P x \<Longrightarrow> P y \<Longrightarrow> find P (xs @ [y]) = Some y"
  by (induction xs) simp_all

lemma results_after_success:
  "moderation_results (set_status (add_result (snd (add_request db em ct h t)) rid res t') rid st) =
     moderation_results db @
       [\<lparr> result_id = next_id (map result_id (moderation_results db)),
          result_request_id = rid,
          result_classification = classification res,
          result_confidence = confidence res,
          result_reasoning = reasoning res,
          result_llm_response = llm_response res,
          result_created_at = t' \<rparr>]"
  by (simp add: set_status_def add_request_def add_result_def Let_def)

lemma submit_text_tables:
  "fst (submit_text env request db) = fst (moderate_text env request db) \<and>
   fst (snd (submit_text env request db)) = fst (snd (moderate_text env request db)) \<and>
   moderation_requests (snd (snd (submit_text env request db)))
     = moderation_requests (snd (snd (moderate_text env request db))) \<and>
   moderation_results (snd (snd (submit_text env request db)))
     = moderation_results (snd (snd (moderate_text env request db)))"
  by (simp add: submit_text_def split_def run_tasks_keeps_tables)

lemma miss_success_tables:
  assumes "cached_verdict db (hash_text (req_text request)) TEXT = None"
    and "generate_text env (req_text request) = Inr raw"
  shows "length (moderation_requests (snd (snd (moderate_text env request db))))
           = Suc (length (moderation_requests db)) \<and>
         length (moderation_results (snd (snd (moderate_text env request db))))
           = Suc (length (moderation_results db))"
  using moderate_text_miss_success [OF assms]
  by (simp add: requests_after_success results_after_success)

text \<open>
  Claim C2, as stated, fails. On the store \<open>db_after_failure\<close>, left by a submission whose
  classification failed, a submission of the same text completes and stores a verdict; the
  next submission of the same text still finds the failed request first, calls the classifier
  again and stores a third request and a second verdict.
\<close>

theorem dedup_idempotence_counterexample:
  \<open>submit_text (example_env (Inr ''{"classification":"spam","flagged":true}'') None None 2)
       example_request db_after_failure =
     (Inr (fresh_response 2 (parse_llm_response ''{"classification":"spam","flagged":true}'')),
      \<lparr> llm_calls = [req_text example_request], image_acquisitions = [],
        background_tasks = [make_task 2 ''user@example.com''
           (parse_llm_response ''{"classification":"spam","flagged":true}'') ''text''
           (take 200 (req_text example_request))] \<rparr>,
      db_after_retry) \<and>
   moderation_results db_after_retry = [example_result 1 2 2] \<and>
   llm_calls (fst (snd (submit_text
       (example_env (Inr ''{"classification":"spam","flagged":true}'') None None 3)
       example_request db_after_retry))) = [req_text example_request] \<and>
   length (moderation_requests (snd (snd (submit_text
       (example_env (Inr ''{"classification":"spam","flagged":true}'') None None 3)
       example_request db_after_retry)))) = 3 \<and>
   length (moderation_results (snd (snd (submit_text
       (example_env (Inr ''{"classification":"spam","flagged":true}'') None None 3)
       example_request db_after_retry)))) = 2\<close>
proof -
  have quiet: "\<And>outcome t task d.
      send_notifications_background (example_env outcome None None t) task d = d"
    by (simp add: send_notifications_background_def send_notifications_def configured_def
        example_env_def)
  have a: \<open>submit_text (example_env (Inr ''{"classification":"spam","flagged":true}'') None None 2)
       example_request db_after_failure =
     (Inr (fresh_response 2 (parse_llm_response ''{"classification":"spam","flagged":true}'')),
      \<lparr> llm_calls = [req_text example_request], image_acquisitions = [],
        background_tasks = [make_task 2 ''user@example.com''
           (parse_llm_response ''{"classification":"spam","flagged":true}'') ''text''
           (take 200 (req_text example_request))] \<rparr>,
      db_after_retry)\<close>
    by (simp add: submit_text_def reach_after_retry quiet)
  have b: "moderation_results db_after_retry = [example_result 1 2 2]"
    by (simp add: db_after_retry_def)
  have g: \<open>generate_text (example_env (Inr ''{"classification":"spam","flagged":true}'') None None 3)
        (req_text example_request) = Inr ''{"classification":"spam","flagged":true}''\<close>
    by simp
  have c: \<open>llm_calls (fst (snd (submit_text
       (example_env (Inr ''{"classification":"spam","flagged":true}'') None None 3)
       example_request db_after_retry))) = [req_text example_request]\<close>
    using moderate_text_miss_success [OF cached_after_retry g]
    by (simp add: submit_text_tables)
  have d: \<open>length (moderation_requests (snd (snd (submit_text
       (example_env (Inr ''{"classification":"spam","flagged":true}'') None None 3)
       example_request db_after_retry)))) = 3\<close>
    using miss_success_tables [OF cached_after_retry g]
    by (simp add: submit_text_tables db_after_retry_def)
  have e: \<open>length (moderation_results (snd (snd (submit_text
       (example_env (Inr ''{"classification":"spam","flagged":true}'') None None 3)
       example_request db_after_retry)))) = 2\<close>
    using miss_success_tables [OF cached_after_retry g]
    by (simp add: submit_text_tables db_after_retry_def)
  from a b c d e show ?thesis by blast
qed

text \<open>
  Claim C2, amended. Let the store hold no request with the fingerprint and kind of the
  submitted text that lacks a verdict, and let every stored result belong to a stored request.
  If a submission of the text completes, then a second submission of the same text returns the
  same request id, classification, confidence and reasoning (tagged as a cached result),
  calls the classifier no more, queues no alert and leaves the store as it was.
\<close>

theorem dedup_idempotent:
  assumes fk: "\<forall>x \<in> set (moderation_results db).
                 result_request_id x \<in> request_id ` set (moderation_requests db)"
    and nov: "\<forall>r \<in> set (moderation_requests db).
                 content_hash r = hash_text (req_text request) \<and> content_type r = TEXT \<longrightarrow>
                 latest_result db (request_id r) \<noteq> None"
    and first: "submit_text env1 request db = (Inr resp1, eff1, db1)"
  shows "submit_text env2 request db1 =
           (Inr (resp1\<lparr> message := ''Content analyzed successfully (cached result)'' \<rparr>),
            no_effects, db1)"
proof (cases "cached_verdict db (hash_text (req_text request)) TEXT")
  case (Some p)
  obtain r v where p: "p = (r, v)" by (cases p)
  have hit: "cached_verdict db (hash_text (req_text request)) TEXT = Some (r, v)"
    using Some p by simp
  from first submit_text_hit [OF hit, of env1]
  have "resp1 = cached_response r v" "db1 = db" by simp_all
  then show ?thesis
    using submit_text_hit [OF hit, of env2] by (simp add: cached_response_def)
next
  case None
  let ?h = "hash_text (req_text request)"
  let ?rid = "next_id (map request_id (moderation_requests db))"
  have nomatch: "\<forall>x \<in> set (moderation_requests db).
      \<not> (content_hash x = ?h \<and> content_type x = TEXT)"
  proof (rule ccontr)
    assume "\<not> ?thesis"
    then obtain r where f: "find_existing_request db ?h TEXT = Some r"
      by (cases "find_existing_request db ?h TEXT")
         (auto simp: find_existing_request_def find_None_iff)
    then have "r \<in> set (moderation_requests db)"
      and "content_hash r = ?h \<and> content_type r = TEXT"
      by (auto simp: find_existing_request_def find_Some_iff)
    with nov have "latest_result db (request_id r) \<noteq> None" by blast
    with f None show False by (auto simp: cached_verdict_def)
  qed
  obtain raw where raw: "generate_text env1 (req_text request) = Inr raw"
  proof (cases "generate_text env1 (req_text request)")
    case (Inl e)
    from moderate_text_miss_failure [OF None Inl] first have False
      by (simp add: submit_text_def)
    then show ?thesis ..
  next
    case (Inr raw)
    then show ?thesis by (rule that)
  qed
  let ?res = "parse_llm_response raw"
  let ?dbm = "set_status (add_result (snd (add_request db (req_email request) TEXT ?h (now env1)))
                 ?rid ?res (now env1)) ?rid COMPLETED"
  let ?new = "\<lparr> request_id = ?rid, email = req_email request, content_type = TEXT,
                 content_hash = ?h, status = COMPLETED, created_at = now env1 \<rparr>"
  let ?newres = "\<lparr> result_id = next_id (map result_id (moderation_results db)),
                    result_request_id = ?rid,
                    result_classification = classification ?res,
                    result_confidence = confidence ?res,
                    result_reasoning = reasoning ?res,
                    result_llm_response = llm_response ?res,
                    result_created_at = now env1 \<rparr>"
  from moderate_text_miss_success [OF None raw] first
  have resp1: "resp1 = fresh_response ?rid ?res"
    and db1: "db1 = foldl (\<lambda>d t. send_notifications_background env1 t d) ?dbm
                      (background_tasks eff1)"
    by (auto simp: submit_text_def)
  have reqs: "moderation_requests db1 = moderation_requests db @ [?new]"
    using db1 by (simp add: run_tasks_keeps_tables requests_after_success)
  have ress: "moderation_results db1 = moderation_results db @ [?newres]"
    using db1 by (simp add: run_tasks_keeps_tables results_after_success)
  have found: "find_existing_request db1 ?h TEXT = Some ?new"
    unfolding find_existing_request_def reqs
    by (rule find_append_last) (use nomatch in simp_all)
  have old: "filter (\<lambda>x. result_request_id x = ?rid) (moderation_results db) = []"
  proof -
    have "\<forall>x \<in> set (moderation_results db). result_request_id x \<noteq> ?rid"
    proof
      fix x assume "x \<in> set (moderation_results db)"
      with fk have "result_request_id x \<in> set (map request_id (moderation_requests db))"
        by auto
      then have "result_request_id x < ?rid" by (rule next_id_fresh)
      then show "result_request_id x \<noteq> ?rid" by simp
    qed
    then show ?thesis by (simp add: filter_empty_conv)
  qed
  have latest: "latest_result db1 ?rid = Some ?newres"
    by (simp add: latest_result_def ress old)
  have hit: "cached_verdict db1 ?h TEXT = Some (?new, ?newres)"
    using found latest by (simp add: cached_verdict_def)
  show ?thesis
    using submit_text_hit [OF hit, of env2] resp1
    by (simp add: cached_response_def fresh_response_def)
qed

theorem dedup_idempotent_witness:
  \<open>moderation_requests empty_db = [] \<and> moderation_results empty_db = [] \<and>
   submit_text (example_env (Inr ''{"classification":"spam","flagged":true}'') None None 1)
       example_request empty_db =
     (Inr (fresh_response 1 (parse_llm_response ''{"classification":"spam","flagged":true}'')),
      \<lparr> llm_calls = [req_text example_request], image_acquisitions = [],
        background_tasks = [make_task 1 ''user@example.com''
           (parse_llm_response ''{"classification":"spam","flagged":true}'') ''text''
           (take 200 (req_text example_request))] \<rparr>,
      db_after_success) \<and>
   submit_text (example_env (Inl (Exception ''unused'')) None None 2) example_request
       db_after_success =
     (Inr ((fresh_response 1 (parse_llm_response ''{"classification":"spam","flagged":true}''))
            \<lparr> message := ''Content analyzed successfully (cached result)'' \<rparr>),
      no_effects, db_after_success)\<close>
proof -
  have fk: "\<forall>x \<in> set (moderation_results empty_db).
       result_request_id x \<in> request_id ` set (moderation_requests empty_db)"
    by (simp add: empty_db_def)
  have nov: "\<forall>r \<in> set (moderation_requests empty_db).
       content_hash r = hash_text (req_text example_request) \<and> content_type r = TEXT \<longrightarrow>
       latest_result empty_db (request_id r) \<noteq> None"
    by (simp add: empty_db_def)
  have quiet: "\<And>outcome t task d.
      send_notifications_background (example_env outcome None None t) task d = d"
    by (simp add: send_notifications_background_def send_notifications_def configured_def
        example_env_def)
  have g: \<open>generate_text (example_env (Inr ''{"classification":"spam","flagged":true}'') None None 1)
        (req_text example_request) = Inr ''{"classification":"spam","flagged":true}''\<close>
    by simp
  have first: \<open>submit_text (example_env (Inr ''{"classification":"spam","flagged":true}'') None None 1)
       example_request empty_db =
     (Inr (fresh_response 1 (parse_llm_response ''{"classification":"spam","flagged":true}'')),
      \<lparr> llm_calls = [req_text example_request], image_acquisitions = [],
        background_tasks = [make_task 1 ''user@example.com''
           (parse_llm_response ''{"classification":"spam","flagged":true}'') ''text''
           (take 200 (req_text example_request))] \<rparr>,
      db_after_success)\<close>
    using moderate_text_miss_success [OF cached_verdict_empty g]
    by (simp add: submit_text_def quiet parse_spam_flagged empty_db_def db_after_success_def
        example_row_def example_result_def example_request_def set_status_def add_request_def
        add_result_def next_id_def Let_def)
  from dedup_idempotent [OF fk nov first] first show ?thesis by (simp add: empty_db_def)
qed

subsection \<open>Isolation of the notification channels\<close>

lemma moderate_text_ignores_channels:
  "moderate_text (env\<lparr> slack_post := sp, email_post := ep \<rparr>) request db
     = moderate_text env request db"
  by (auto simp: moderate_text_def llm_moderate_text_def Let_def
      split: option.splits sum.splits prod.splits)

text \<open>
  Claim C8. Let the dispatcher run for a verdict that is not \<open>safe\<close>, with the chat and the
  e-mail channel configured, the chat call raising and the e-mail call succeeding. Then it
  returns normally, having logged a failed attempt with the error text for the chat channel
  and a sent attempt for the e-mail channel, and leaves requests and results untouched. The
  answer of the submission is the same whatever the two channels do.
\<close>

theorem channel_isolation:
  assumes "task_classification t \<noteq> SAFE"
    and "configured (slack_webhook_url env)"
    and "configured (brevo_api_key env)"
    and "configured (brevo_sender_email env)"
    and "slack_post env t = Inl e"
    and "email_post env t = Inr response"
    and "find_request_by_id db (task_request_id t) = Some r"
  shows "send_notifications_background env t db =
           db\<lparr> notification_logs := notification_logs db @
                 [\<lparr> log_request_id = task_request_id t, channel = SLACK,
                    log_status = NOTIFY_FAILED, error_message = Some (str_e e),
                    sent_at = Some (created_at r) \<rparr>,
                  \<lparr> log_request_id = task_request_id t, channel = EMAIL,
                    log_status = SENT, error_message = None,
                    sent_at = Some (created_at r) \<rparr>] \<rparr> \<and>
         (\<forall>sp ep. fst (submit_text (env\<lparr> slack_post := sp, email_post := ep \<rparr>) request db0)
                    = fst (submit_text env request db0))"
proof -
  have a: "send_notifications env t =
             [(''slack'', ChannelFailed (str_e e)), (''email'', ChannelSent response)]"
    using assms by (simp add: send_notifications_def attempt_def)
  have b: "send_notifications_background env t db =
           db\<lparr> notification_logs := notification_logs db @
                 [\<lparr> log_request_id = task_request_id t, channel = SLACK,
                    log_status = NOTIFY_FAILED, error_message = Some (str_e e),
                    sent_at = Some (created_at r) \<rparr>,
                  \<lparr> log_request_id = task_request_id t, channel = EMAIL,
                    log_status = SENT, error_message = None,
                    sent_at = Some (created_at r) \<rparr>] \<rparr>"
    using assms(7) by (simp add: send_notifications_background_def a notification_log_def)
  have c: "\<forall>sp ep. fst (submit_text (env\<lparr> slack_post := sp, email_post := ep \<rparr>) request db0)
                    = fst (submit_text env request db0)"
    by (simp add: submit_text_def split_def moderate_text_ignores_channels)
  from b c show ?thesis by blast
qed

theorem channel_isolation_witness:
  "task_classification
     \<lparr> task_request_id = 1, task_email = ''user@example.com'', task_classification = SPAM,
       task_content_type = ''text'', task_content_preview = ''Buy  CHEAP pills'',
       task_confidence = Fin (1 / 2), task_reasoning = JString ''No reasoning provided'' \<rparr>
     \<noteq> SAFE \<and>
   find_request_by_id db_after_success 1 = Some (example_row 1 COMPLETED 1) \<and>
   notification_logs (send_notifications_background
     ((example_env (Inl (Exception ''unused'')) (Some ''https://hooks.slack.example/T1'')
         (Some ''brevo-key'') 9)
        \<lparr> slack_post := (\<lambda>t. Inl (Exception ''503 Service Unavailable'')) \<rparr>)
     \<lparr> task_request_id = 1, task_email = ''user@example.com'', task_classification = SPAM,
       task_content_type = ''text'', task_content_preview = ''Buy  CHEAP pills'',
       task_confidence = Fin (1 / 2), task_reasoning = JString ''No reasoning provided'' \<rparr>
     db_after_success) =
     [\<lparr> log_request_id = 1, channel = SLACK, log_status = NOTIFY_FAILED,
        error_message = Some ''503 Service Unavailable'', sent_at = Some 1 \<rparr>,
      \<lparr> log_request_id = 1, channel = EMAIL, log_status = SENT,
        error_message = None, sent_at = Some 1 \<rparr>]"
proof -
  let ?env = "(example_env (Inl (Exception ''unused'')) (Some ''https://hooks.slack.example/T1'')
         (Some ''brevo-key'') 9)
        \<lparr> slack_post := (\<lambda>t. Inl (Exception ''503 Service Unavailable'')) \<rparr>"
  let ?t = "\<lparr> task_request_id = 1, task_email = ''user@example.com'', task_classification = SPAM,
       task_content_type = ''text'', task_content_preview = ''Buy  CHEAP pills'',
       task_confidence = Fin (1 / 2), task_reasoning = JString ''No reasoning provided'' \<rparr>"
  have h1: "task_classification ?t \<noteq> SAFE" by simp
  have h2: "configured (slack_webhook_url ?env)" by (simp add: example_env_def configured_def)
  have h3: "configured (brevo_api_key ?env)" by (simp add: example_env_def configured_def)
  have h4: "configured (brevo_sender_email ?env)" by (simp add: example_env_def configured_def)
  have h5: "slack_post ?env ?t = Inl (Exception ''503 Service Unavailable'')" by simp
  have h6: "email_post ?env ?t = Inr ''{}''" by (simp add: example_env_def)
  have h7: "find_request_by_id db_after_success (task_request_id ?t)
              = Some (example_row 1 COMPLETED 1)"
    by (simp add: find_request_by_id_def db_after_success_def example_row_def)
  from channel_isolation [OF h1 h2 h3 h4 h5 h6 h7] h1 h7
  show ?thesis by (simp add: db_after_success_def example_row_def)
qed

subsection \<open>Characters and case\<close>

lemma lower_char_idem: "lower_char (lower_char c) = lower_char c"
  by (auto simp: lower_char_def Let_def)


lemma case_variant_lower: "case_variant c d \<Longrightarrow> lower_char c = lower_char d"
  by (auto simp: case_variant_def lower_char_idem)

lemma case_variants_lower:
  "list_all2 case_variant xs ys \<Longrightarrow> py_lower xs = py_lower ys"
  unfolding py_lower_def
  by (induction xs ys rule: list_all2_induct) (simp_all add: case_variant_lower)

subsection \<open>Images submitted by URL\<close>

lemma acquire_image_url:
  assumes "image_url request = Some u" and "u \<noteq> []"
  shows "acquire_image env request =
           ((case process_image_url env u of
               Inl e \<Rightarrow> Inl e
             | Inr (image_bytes, mime_type) \<Rightarrow>
                 Inr (image_bytes, hash_url u, ''Image from URL: '' @ u)),
            [u])"
  using assms by (simp add: acquire_image_def configured_def Let_def)

lemma moderate_image_url_hit:
  assumes "image_url request = Some u" and "u \<noteq> []"
    and "process_image_url env u = Inr (b, m)"
    and "cached_verdict db (hash_url u) IMAGE = Some (r, v)"
  shows "moderate_image env request db =
           (Inr (cached_response r v), no_effects\<lparr> image_acquisitions := [u] \<rparr>, db)"
  using assms by (simp add: moderate_image_def acquire_image_url Let_def)

lemma moderate_image_url_unreachable:
  assumes "image_url request = Some u" and "u \<noteq> []"
    and "process_image_url env u = Inl e"
  shows "moderate_image env request db =
           (Inl \<lparr> status_code = 500,
                  detail = ''Failed to analyze image content: '' @ str_e e \<rparr>,
            no_effects\<lparr> image_acquisitions := [u] \<rparr>, db)"
  using assms by (simp add: moderate_image_def acquire_image_url)

lemma example_urls:
  "normalize_url ''https://CDN.example.com/cat.jpg''
     = normalize_url ''https://cdn.example.com/Cat.JPG''"
  by code_simp

lemma cached_example_image:
  "cached_verdict example_image_db (hash_url ''https://cdn.example.com/Cat.JPG'') IMAGE =
     Some (\<lparr> request_id = 1, email = ''user@example.com'', content_type = IMAGE,
             content_hash = hash_url ''https://cdn.example.com/Cat.JPG'',
             status = COMPLETED, created_at = 1 \<rparr>, example_result 1 1 1)"
  by (simp add: cached_verdict_def find_existing_request_def latest_result_def
      example_image_db_def example_result_def)

text \<open>
  Claim C9, as stated, fails in its last part. The route acquires the image before it
  fingerprints the URL and looks for a duplicate. A second submission whose URL differs from
  the stored one only in letter case has the same fingerprint, yet the image is fetched again
  from the URL as submitted; and when that fetch fails, the submission fails instead of
  returning the stored verdict.
\<close>

theorem image_url_dedup_counterexample:
  "hash_url ''https://CDN.example.com/cat.jpg'' = hash_url ''https://cdn.example.com/Cat.JPG'' \<and>
   image_acquisitions (fst (snd (moderate_image
       (example_env (Inl (Exception ''unused'')) None None 2)
       \<lparr> img_email = ''user@example.com'',
         image_url = Some ''https://CDN.example.com/cat.jpg'', image_base64 = None \<rparr>
       example_image_db))) = [''https://CDN.example.com/cat.jpg''] \<and>
   fst (moderate_image
       ((example_env (Inl (Exception ''unused'')) None None 2)
          \<lparr> process_image_url := (\<lambda>url. Inl (Exception ''404 Not Found'')) \<rparr>)
       \<lparr> img_email = ''user@example.com'',
         image_url = Some ''https://CDN.example.com/cat.jpg'', image_base64 = None \<rparr>
       example_image_db)
     = Inl \<lparr> status_code = 500,
             detail = ''Failed to analyze image content: '' @ ''404 Not Found'' \<rparr>"
proof -
  let ?req = "\<lparr> img_email = ''user@example.com'',
         image_url = Some ''https://CDN.example.com/cat.jpg'', image_base64 = None \<rparr>"
  have u: "image_url ?req = Some ''https://CDN.example.com/cat.jpg''" by simp
  have n: "''https://CDN.example.com/cat.jpg'' \<noteq> []" by simp
  have h: "hash_url ''https://CDN.example.com/cat.jpg''
             = hash_url ''https://cdn.example.com/Cat.JPG''"
    by (simp add: hash_url_def example_urls)
  have p: "process_image_url (example_env (Inl (Exception ''unused'')) None None 2)
             ''https://CDN.example.com/cat.jpg'' = Inr ([255, 216, 255], ''image/jpeg'')"
    by (simp add: example_env_def)
  have c: "cached_verdict example_image_db (hash_url ''https://CDN.example.com/cat.jpg'') IMAGE =
     Some (\<lparr> request_id = 1, email = ''user@example.com'', content_type = IMAGE,
             content_hash = hash_url ''https://cdn.example.com/Cat.JPG'',
             status = COMPLETED, created_at = 1 \<rparr>, example_result 1 1 1)"
    using cached_example_image by (simp only: h)
  have a: "image_acquisitions (fst (snd (moderate_image
       (example_env (Inl (Exception ''unused'')) None None 2) ?req example_image_db)))
         = [''https://CDN.example.com/cat.jpg'']"
    using moderate_image_url_hit [OF u n p c] by (simp add: no_effects_def)
  have q: "process_image_url
             ((example_env (Inl (Exception ''unused'')) None None 2)
                \<lparr> process_image_url := (\<lambda>url. Inl (Exception ''404 Not Found'')) \<rparr>)
             ''https://CDN.example.com/cat.jpg'' = Inl (Exception ''404 Not Found'')"
    by simp
  have b: "fst (moderate_image
       ((example_env (Inl (Exception ''unused'')) None None 2)
          \<lparr> process_image_url := (\<lambda>url. Inl (Exception ''404 Not Found'')) \<rparr>)
       ?req example_image_db)
     = Inl \<lparr> status_code = 500,
             detail = ''Failed to analyze image content: '' @ ''404 Not Found'' \<rparr>"
    using moderate_image_url_unreachable [OF u n q, of example_image_db] by simp
  from h a b show ?thesis by blast
qed

text \<open>
  Claim C9, amended. Two URLs that differ only in letter case after trimming have the same
  fingerprint. A submission by such a URL of content whose first stored request has a verdict
  acquires the image from the submitted URL first; if that succeeds it returns the stored
  verdict, calls the classifier no more and writes nothing, and if it fails the submission
  fails with status 500.
\<close>

theorem image_url_dedup:
  assumes "list_all2 case_variant (py_strip u1) (py_strip u2)"
    and "image_url request = Some u2" and "u2 \<noteq> []"
    and "find_existing_request db (hash_url u1) IMAGE = Some r"
    and "latest_result db (request_id r) = Some v"
  shows "hash_url u2 = hash_url u1 \<and>
         image_acquisitions (fst (snd (moderate_image env request db))) = [u2] \<and>
         (\<forall>b m. process_image_url env u2 = Inr (b, m) \<longrightarrow>
            moderate_image env request db =
              (Inr (cached_response r v), no_effects\<lparr> image_acquisitions := [u2] \<rparr>, db)) \<and>
         (\<forall>e. process_image_url env u2 = Inl e \<longrightarrow>
            moderate_image env request db =
              (Inl \<lparr> status_code = 500,
                     detail = ''Failed to analyze image content: '' @ str_e e \<rparr>,
               no_effects\<lparr> image_acquisitions := [u2] \<rparr>, db))"
proof -
  have h: "hash_url u2 = hash_url u1"
    using case_variants_lower [OF assms(1)] by (simp add: hash_url_def normalize_url_def)
  have c: "cached_verdict db (hash_url u2) IMAGE = Some (r, v)"
    using assms(4,5) h by (simp add: cached_verdict_def)
  have ok: "\<forall>b m. process_image_url env u2 = Inr (b, m) \<longrightarrow>
            moderate_image env request db =
              (Inr (cached_response r v), no_effects\<lparr> image_acquisitions := [u2] \<rparr>, db)"
    using moderate_image_url_hit [OF assms(2,3) _ c] by blast
  have ko: "\<forall>e. process_image_url env u2 = Inl e \<longrightarrow>
            moderate_image env request db =
              (Inl \<lparr> status_code = 500,
                     detail = ''Failed to analyze image content: '' @ str_e e \<rparr>,
               no_effects\<lparr> image_acquisitions := [u2] \<rparr>, db)"
    using moderate_image_url_unreachable [OF assms(2,3)] by blast
  have acq: "image_acquisitions (fst (snd (moderate_image env request db))) = [u2]"
  proof (cases "process_image_url env u2")
    case (Inl e)
    with ko show ?thesis by (simp add: no_effects_def)
  next
    case (Inr p)
    obtain b m where "p = (b, m)" by (cases p)
    with Inr ok show ?thesis by (simp add: no_effects_def)
  qed
  from h acq ok ko show ?thesis by blast
qed

theorem image_url_dedup_witness:
  "list_all2 case_variant (py_strip ''https://cdn.example.com/Cat.JPG'')
       (py_strip '' https://CDN.example.com/cat.jpg '') \<and>
   find_existing_request example_image_db (hash_url ''https://cdn.example.com/Cat.JPG'') IMAGE
     = Some \<lparr> request_id = 1, email = ''user@example.com'', content_type = IMAGE,
              content_hash = hash_url ''https://cdn.example.com/Cat.JPG'',
              status = COMPLETED, created_at = 1 \<rparr> \<and>
   hash_url '' https://CDN.example.com/cat.jpg '' = hash_url ''https://cdn.example.com/Cat.JPG'' \<and>
   image_acquisitions (fst (snd (moderate_image
       (example_env (Inl (Exception ''unused'')) None None 2)
       \<lparr> img_email = ''other@example.com'',
         image_url = Some '' https://CDN.example.com/cat.jpg '', image_base64 = None \<rparr>
       example_image_db))) = ['' https://CDN.example.com/cat.jpg '']"
proof -
  let ?req = "\<lparr> img_email = ''other@example.com'',
         image_url = Some '' https://CDN.example.com/cat.jpg '', image_base64 = None \<rparr>"
  have v: "list_all2 case_variant (py_strip ''https://cdn.example.com/Cat.JPG'')
       (py_strip '' https://CDN.example.com/cat.jpg '')"
    by code_simp
  have u: "image_url ?req = Some '' https://CDN.example.com/cat.jpg ''" by simp
  have n: "'' https://CDN.example.com/cat.jpg '' \<noteq> []" by simp
  have f: "find_existing_request example_image_db (hash_url ''https://cdn.example.com/Cat.JPG'') IMAGE
     = Some \<lparr> request_id = 1, email = ''user@example.com'', content_type = IMAGE,
              content_hash = hash_url ''https://cdn.example.com/Cat.JPG'',
              status = COMPLETED, created_at = 1 \<rparr>"
    by (simp add: find_existing_request_def example_image_db_def)
  have l: "latest_result example_image_db (request_id
             \<lparr> request_id = 1, email = ''user@example.com'', content_type = IMAGE,
               content_hash = hash_url ''https://cdn.example.com/Cat.JPG'',
               status = COMPLETED, created_at = 1 \<rparr>) = Some (example_result 1 1 1)"
    by (simp add: latest_result_def example_image_db_def example_result_def)
  from image_url_dedup [OF v u n f l] v f show ?thesis by blast
qed

subsection \<open>Stability of the text fingerprint\<close>









lemma lower_append: "py_lower (a @ b) = py_lower a @ py_lower b"
  by (simp add: py_lower_def)











end
